theory Spec2Isabelle
  imports Main
begin

section \<open>Python values and field expressions (snakeql/core.py)\<close>

text \<open>
  A shallow embedding of the query engine of \<^verbatim>\<open>snakeql/core.py\<close>, of the helper
  functions of \<^verbatim>\<open>snakeql/functions.py\<close> and of the lexer and the reduction actions of
  \<^verbatim>\<open>snakeql/lexer.py\<close> and \<^verbatim>\<open>snakeql/parser.py\<close>.

  Python values are the datatype \<open>val\<close>: \<^verbatim>\<open>None\<close>, booleans, unbounded integers,
  strings, tuples, lists, dictionaries (a list of key/value entries in insertion order),
  instances of a plain user class (an identity and the instance attributes) and field
  objects. Floating-point numbers are not part of the value universe. An exception is a
  value of \<open>exn\<close>; a function that can raise returns \<open>exn + 'a\<close>, \<open>Inl\<close> the
  exception. Three values of \<open>exn\<close> are not exceptions: \<open>Diverges\<close> stands for a call that
  does not return (iterating over the identity field, whose \<^verbatim>\<open>__getitem__\<close> never raises),
  \<open>Unmodelled\<close> for an input that leaves the value universe (a floating-point literal),
  and \<open>OutOfFuel\<close> for a run of the parser that is cut short by its step bound.
\<close>

datatype exn =
    AssertionError string
  | ValueError string
  | NameError string
  | SyntaxError string
  | TypeError
  | AttributeError
  | KeyError
  | IndexError
  | ExternError string
  | Diverges
  | Unmodelled string
  | OutOfFuel

text \<open>
  The callables a \<^verbatim>\<open>FunctionField\<close> can hold. The first five are the module-level
  functions \<^verbatim>\<open>and_\<close>, \<^verbatim>\<open>or_\<close>, \<^verbatim>\<open>not_\<close>, \<^verbatim>\<open>in_\<close> and \<^verbatim>\<open>matches\<close> of core.py, the
  next six the rich comparisons of the \<^verbatim>\<open>operator\<close> module; \<open>Extern m n\<close> is any other
  callable, named \<open>n\<close> (its \<^verbatim>\<open>__name__\<close>) in module or class \<open>m\<close>. Two callables are the
  same object (\<^verbatim>\<open>is\<close>) iff they are equal here.
\<close>

datatype func =
    Fn_and | Fn_or | Fn_not | Fn_in | Fn_matches
  | Operator_eq | Operator_ne | Operator_lt | Operator_le | Operator_gt | Operator_ge
  | Extern string string

datatype val =
    VNone
  | VBool bool
  | VInt int
  | VStr string
  | VTuple "val list"
  | VList "val list"
  | VDict "(val \<times> val) list"
  | VObj nat "(string \<times> val) list"
  | VField field
and field =
    IdentityField
  | AttrField string
  | KeyField val
  | ConstantField val
  | ListField "field list"
  | AliasField field string
  | FunctionField func "field list" string
  | OperatorField func "field list" string
  | AggregateFunctionField func "field list" string

text \<open>The module-level object \<^verbatim>\<open>o = IdentityField()\<close>.\<close>

definition o_obj :: val where
  "o_obj = VField IdentityField"

subsection \<open>Truth value, coercion to a field\<close>

text \<open>
  \<^verbatim>\<open>bool(x)\<close>. No \<^verbatim>\<open>Field\<close> class defines \<^verbatim>\<open>__bool__\<close> or \<^verbatim>\<open>__len__\<close>, so a field
  object is true, like an instance of a plain class.
\<close>

fun truthy :: "val \<Rightarrow> bool" where
  "truthy VNone = False"
| "truthy (VBool b) = b"
| "truthy (VInt i) = (i \<noteq> 0)"
| "truthy (VStr s) = (s \<noteq> [])"
| "truthy (VTuple xs) = (xs \<noteq> [])"
| "truthy (VList xs) = (xs \<noteq> [])"
| "truthy (VDict kvs) = (kvs \<noteq> [])"
| "truthy (VObj i attrs) = True"
| "truthy (VField f) = True"

fun is_field :: "val \<Rightarrow> bool" where
  "is_field (VField f) = True"
| "is_field v = False"

text \<open>\<^verbatim>\<open>to_field\<close> and \<^verbatim>\<open>to_fields\<close>.\<close>

fun to_field :: "val \<Rightarrow> field" where
  "to_field (VField f) = f"
| "to_field v = ConstantField v"

definition to_fields :: "val list \<Rightarrow> field list" where
  "to_fields vs = map to_field vs"

subsection \<open>Classes of field objects\<close>

text \<open>
  The class of a field object, for \<^verbatim>\<open>type(self) is type(other)\<close> and for the rule of
  rich comparison that gives the right operand's method priority when its class is a
  proper subclass of the left operand's. \<^verbatim>\<open>OperatorField\<close> and
  \<^verbatim>\<open>AggregateFunctionField\<close> derive from \<^verbatim>\<open>FunctionField\<close>.
\<close>

datatype ftype =
  TList | TKey | TAttr | TIdentity | TAlias | TConstant | TFunction | TOperator | TAggregate

fun type_of :: "field \<Rightarrow> ftype" where
  "type_of IdentityField = TIdentity"
| "type_of (AttrField a) = TAttr"
| "type_of (KeyField k) = TKey"
| "type_of (ConstantField v) = TConstant"
| "type_of (ListField fs) = TList"
| "type_of (AliasField f n) = TAlias"
| "type_of (FunctionField fn args n) = TFunction"
| "type_of (OperatorField fn args n) = TOperator"
| "type_of (AggregateFunctionField fn args n) = TAggregate"

definition proper_subclass :: "ftype \<Rightarrow> ftype \<Rightarrow> bool" where
  "proper_subclass t s \<longleftrightarrow> (t = TOperator \<or> t = TAggregate) \<and> s = TFunction"

subsection \<open>Classification: \<^verbatim>\<open>_is_mapper\<close> and \<^verbatim>\<open>_is_aggregator\<close>\<close>

fun is_mapper :: "field \<Rightarrow> bool" where
  "is_mapper IdentityField = True"
| "is_mapper (AttrField a) = True"
| "is_mapper (KeyField k) = True"
| "is_mapper (ConstantField v) = True"
| "is_mapper (ListField fs) = list_all is_mapper fs"
| "is_mapper (AliasField f n) = is_mapper f"
| "is_mapper (FunctionField fn args n) = list_all is_mapper args"
| "is_mapper (OperatorField fn args n) = list_all is_mapper args"
| "is_mapper (AggregateFunctionField fn args n) = False"

fun is_aggregator :: "field \<Rightarrow> bool" where
  "is_aggregator IdentityField = False"
| "is_aggregator (AttrField a) = False"
| "is_aggregator (KeyField k) = False"
| "is_aggregator (ConstantField v) = True"
| "is_aggregator (ListField fs) = list_all is_aggregator fs"
| "is_aggregator (AliasField f n) = is_aggregator f"
| "is_aggregator (FunctionField fn args n) = list_all is_aggregator args"
| "is_aggregator (OperatorField fn args n) = list_all is_aggregator args"
| "is_aggregator (AggregateFunctionField fn args n) = True"

subsection \<open>Constructors\<close>

text \<open>\<^verbatim>\<open>func.__name__\<close>.\<close>

fun func_name :: "func \<Rightarrow> string" where
  "func_name Fn_and = ''and_''"
| "func_name Fn_or = ''or_''"
| "func_name Fn_not = ''not_''"
| "func_name Fn_in = ''in_''"
| "func_name Fn_matches = ''matches''"
| "func_name Operator_eq = ''eq''"
| "func_name Operator_ne = ''ne''"
| "func_name Operator_lt = ''lt''"
| "func_name Operator_le = ''le''"
| "func_name Operator_gt = ''gt''"
| "func_name Operator_ge = ''ge''"
| "func_name (Extern m n) = n"

text \<open>\<^verbatim>\<open>name or func.__name__\<close>: the empty string is false as well as \<^verbatim>\<open>None\<close>.\<close>

definition name_or :: "string option \<Rightarrow> func \<Rightarrow> string" where
  "name_or name fn = (case name of None \<Rightarrow> func_name fn
                      | Some n \<Rightarrow> if n \<noteq> [] then n else func_name fn)"

text \<open>\<^verbatim>\<open>FunctionField.__init__\<close>, \<^verbatim>\<open>OperatorField.__init__\<close> with its assertion on the
  number of arguments, \<^verbatim>\<open>AggregateFunctionField.__init__\<close> with its assertion that every
  argument is a mapper.\<close>

definition FunctionField_init :: "func \<Rightarrow> field list \<Rightarrow> string option \<Rightarrow> field" where
  "FunctionField_init fn args name = FunctionField fn args (name_or name fn)"

definition OperatorField_init :: "func \<Rightarrow> field list \<Rightarrow> string option \<Rightarrow> exn + field" where
  "OperatorField_init fn args name =
     (if length args = 1 \<or> length args = 2
      then Inr (OperatorField fn args (name_or name fn))
      else Inl (AssertionError []))"

definition AggregateFunctionField_init ::
  "func \<Rightarrow> field list \<Rightarrow> string option \<Rightarrow> exn + field" where
  "AggregateFunctionField_init fn args name =
     (if list_all is_mapper args
      then Inr (AggregateFunctionField fn args (name_or name fn))
      else Inl (AssertionError []))"

text \<open>
  \<^verbatim>\<open>re.match(r"[a-zA-Z_][a-zA-Z_0-9]*", name)\<close>: the pattern is matched at the start of
  the string and need not reach its end; the result is the matched prefix, or \<open>None\<close>
  when the first character cannot start an identifier.
\<close>

definition ident_start :: "char \<Rightarrow> bool" where
  "ident_start c \<longleftrightarrow>
     (let n = (of_char c :: nat) in (97 \<le> n \<and> n \<le> 122) \<or> (65 \<le> n \<and> n \<le> 90) \<or> n = 95)"

definition ident_char :: "char \<Rightarrow> bool" where
  "ident_char c \<longleftrightarrow>
     (let n = (of_char c :: nat) in ident_start c \<or> (48 \<le> n \<and> n \<le> 57))"

fun re_match_ident :: "string \<Rightarrow> string option" where
  "re_match_ident [] = None"
| "re_match_ident (c # cs) =
     (if ident_start c then Some (c # takeWhile ident_char cs) else None)"

text \<open>\<^verbatim>\<open>AliasField.__init__\<close>: the assertion holds when the match object is not
  \<^verbatim>\<open>None\<close>.\<close>

definition AliasField_init :: "val \<Rightarrow> string \<Rightarrow> exn + field" where
  "AliasField_init fld name =
     (if re_match_ident name \<noteq> None
      then Inr (AliasField (to_field fld) name)
      else Inl (AssertionError ''Alias must be a valid Python identifier''))"

text \<open>The pattern of the assertion matched against the whole name: what the
  assertion's message asks for.\<close>

definition valid_identifier :: "string \<Rightarrow> bool" where
  "valid_identifier name \<longleftrightarrow> name \<noteq> [] \<and> ident_start (hd name) \<and> list_all ident_char (tl name)"

subsection \<open>Operators of the \<^verbatim>\<open>Field\<close> class\<close>

text \<open>\<^verbatim>\<open>field_op(operator, op_str)\<close> is the method
  \<^verbatim>\<open>lambda self, other: OperatorField(operator, (self, to_field(other)), op_str)\<close>.\<close>

definition field_op :: "func \<Rightarrow> string \<Rightarrow> field \<Rightarrow> val \<Rightarrow> exn + field" where
  "field_op operator op_str self other =
     OperatorField_init operator [self, to_field other] (Some op_str)"

datatype cmpop = Eq | Ne | Lt | Le | Gt | Ge

fun cmp_func :: "cmpop \<Rightarrow> func" where
  "cmp_func Eq = Operator_eq"
| "cmp_func Ne = Operator_ne"
| "cmp_func Lt = Operator_lt"
| "cmp_func Le = Operator_le"
| "cmp_func Gt = Operator_gt"
| "cmp_func Ge = Operator_ge"

fun cmp_str :: "cmpop \<Rightarrow> string" where
  "cmp_str Eq = ''==''"
| "cmp_str Ne = ''!=''"
| "cmp_str Lt = ''<''"
| "cmp_str Le = ''<=''"
| "cmp_str Gt = ''>''"
| "cmp_str Ge = ''>=''"

text \<open>The methods \<^verbatim>\<open>__eq__\<close>, \<^verbatim>\<open>__ne__\<close>, \<^verbatim>\<open>__lt__\<close>, \<^verbatim>\<open>__le__\<close>, \<^verbatim>\<open>__gt__\<close>,
  \<^verbatim>\<open>__ge__\<close> of \<^verbatim>\<open>Field\<close>, by the comparison they overload.\<close>

definition field_cmp :: "cmpop \<Rightarrow> field \<Rightarrow> val \<Rightarrow> exn + field" where
  "field_cmp op self other = field_op (cmp_func op) (cmp_str op) self other"

text \<open>\<^verbatim>\<open>Field.__eq__ = field_op(operator.eq, "==")\<close>.\<close>

definition field_eq :: "field \<Rightarrow> val \<Rightarrow> exn + field" where
  "field_eq = field_op Operator_eq ''==''"

text \<open>\<^verbatim>\<open>__and__\<close>, \<^verbatim>\<open>__or__\<close>, \<^verbatim>\<open>__invert__\<close>, \<^verbatim>\<open>IN\<close> (applied to the elements of the
  sequence it is given), \<^verbatim>\<open>AS\<close>, \<^verbatim>\<open>MATCHES\<close>.\<close>

definition field_and :: "field \<Rightarrow> val \<Rightarrow> exn + field" where
  "field_and = field_op Fn_and ''AND''"

definition field_or :: "field \<Rightarrow> val \<Rightarrow> exn + field" where
  "field_or = field_op Fn_or ''OR''"

definition field_invert :: "field \<Rightarrow> exn + field" where
  "field_invert self = OperatorField_init Fn_not [self] (Some ''NOT'')"

definition field_IN :: "field \<Rightarrow> val list \<Rightarrow> exn + field" where
  "field_IN self others =
     OperatorField_init Fn_in [self, ListField (to_fields others)] (Some ''IN'')"

definition field_AS :: "field \<Rightarrow> string \<Rightarrow> exn + field" where
  "field_AS self name = AliasField_init (VField self) name"

definition field_MATCHES :: "field \<Rightarrow> val \<Rightarrow> exn + field" where
  "field_MATCHES = field_op Fn_matches ''MATCHES''"

subsection \<open>Comparison of Python values\<close>

fun swapped :: "cmpop \<Rightarrow> cmpop" where
  "swapped Eq = Eq"
| "swapped Ne = Ne"
| "swapped Lt = Gt"
| "swapped Le = Ge"
| "swapped Gt = Lt"
| "swapped Ge = Le"

fun is_num :: "val \<Rightarrow> bool" where
  "is_num (VBool b) = True"
| "is_num (VInt i) = True"
| "is_num v = False"

text \<open>\<^verbatim>\<open>bool\<close> is a subclass of \<^verbatim>\<open>int\<close>: \<^verbatim>\<open>True\<close> is 1 and \<^verbatim>\<open>False\<close> is 0.\<close>

fun num_of :: "val \<Rightarrow> int" where
  "num_of (VBool b) = (if b then 1 else 0)"
| "num_of (VInt i) = i"
| "num_of v = 0"

text \<open>
  The truth value of \<^verbatim>\<open>x == y\<close>. When one side is a field object the comparison
  calls \<^verbatim>\<open>Field.__eq__\<close>, which returns an \<^verbatim>\<open>OperatorField\<close>: a true value. Tuples and
  lists are compared element by element, dictionaries entry by entry, instances of a plain
  class by identity.
\<close>

function (sequential) eq_bool :: "val \<Rightarrow> val \<Rightarrow> bool"
  and eq_list :: "val list \<Rightarrow> val list \<Rightarrow> bool"
  and dict_sub :: "(val \<times> val) list \<Rightarrow> (val \<times> val) list \<Rightarrow> bool"
  and dict_has :: "val \<Rightarrow> val \<Rightarrow> (val \<times> val) list \<Rightarrow> bool" where
  "eq_bool (VField f) y = True"
| "eq_bool VNone y = (case y of VField g \<Rightarrow> True | VNone \<Rightarrow> True | _ \<Rightarrow> False)"
| "eq_bool (VBool b) y =
     (case y of VField g \<Rightarrow> True | VBool c \<Rightarrow> b = c | VInt j \<Rightarrow> (if b then 1 else 0) = j
      | _ \<Rightarrow> False)"
| "eq_bool (VInt i) y =
     (case y of VField g \<Rightarrow> True | VBool c \<Rightarrow> i = (if c then 1 else 0) | VInt j \<Rightarrow> i = j
      | _ \<Rightarrow> False)"
| "eq_bool (VStr s) y = (case y of VField g \<Rightarrow> True | VStr t \<Rightarrow> s = t | _ \<Rightarrow> False)"
| "eq_bool (VTuple xs) y =
     (case y of VField g \<Rightarrow> True | VTuple ys \<Rightarrow> eq_list xs ys | _ \<Rightarrow> False)"
| "eq_bool (VList xs) y =
     (case y of VField g \<Rightarrow> True | VList ys \<Rightarrow> eq_list xs ys | _ \<Rightarrow> False)"
| "eq_bool (VDict a) y =
     (case y of VField g \<Rightarrow> True
      | VDict b \<Rightarrow> length a = length b \<and> dict_sub a b \<and> dict_sub b a
      | _ \<Rightarrow> False)"
| "eq_bool (VObj i attrs) y =
     (case y of VField g \<Rightarrow> True | VObj j attrs' \<Rightarrow> i = j | _ \<Rightarrow> False)"
| "eq_list [] ys = (ys = [])"
| "eq_list (x # xs) ys = (case ys of [] \<Rightarrow> False | y # ys' \<Rightarrow> eq_bool x y \<and> eq_list xs ys')"
| "dict_sub [] b = True"
| "dict_sub ((k, v) # a) b = (dict_has k v b \<and> dict_sub a b)"
| "dict_has k v [] = False"
| "dict_has k v ((k', v') # b) = (if eq_bool k k' then eq_bool v v' else dict_has k v b)"
  by pat_completeness auto

termination
  by (relation "measure (case_sum
        (case_sum (\<lambda>(x, y). size x + size y)
                  (\<lambda>(xs, ys). size_list size xs + size_list size ys))
        (case_sum (\<lambda>(a, b). size_list (size_prod size size) a + size_list (size_prod size size) b)
                  (\<lambda>(k, v, b). size k + size v + size_list (size_prod size size) b)))")
     auto

text \<open>Comparison of integers and, by code point, of strings.\<close>

fun cmp_int :: "cmpop \<Rightarrow> int \<Rightarrow> int \<Rightarrow> bool" where
  "cmp_int Eq a b = (a = b)"
| "cmp_int Ne a b = (a \<noteq> b)"
| "cmp_int Lt a b = (a < b)"
| "cmp_int Le a b = (a \<le> b)"
| "cmp_int Gt a b = (b < a)"
| "cmp_int Ge a b = (b \<le> a)"

fun str_lt :: "string \<Rightarrow> string \<Rightarrow> bool" where
  "str_lt [] [] = False"
| "str_lt [] (b # bs) = True"
| "str_lt (a # as) [] = False"
| "str_lt (a # as) (b # bs) =
     (if a = b then str_lt as bs else (of_char a :: nat) < of_char b)"

fun cmp_string :: "cmpop \<Rightarrow> string \<Rightarrow> string \<Rightarrow> bool" where
  "cmp_string Eq a b = (a = b)"
| "cmp_string Ne a b = (a \<noteq> b)"
| "cmp_string Lt a b = str_lt a b"
| "cmp_string Le a b = (a = b \<or> str_lt a b)"
| "cmp_string Gt a b = str_lt b a"
| "cmp_string Ge a b = (a = b \<or> str_lt b a)"

text \<open>
  A comparison with a field object on one side. The right operand's method is called
  first, with the reflected operator, when the left operand is not a field or when the
  right operand's class is a proper subclass of the left operand's.
\<close>

definition field_richcmp :: "cmpop \<Rightarrow> val \<Rightarrow> val \<Rightarrow> exn + val" where
  "field_richcmp op x y =
     (case x of
        VField f \<Rightarrow>
          (case y of
             VField g \<Rightarrow>
               if proper_subclass (type_of g) (type_of f)
               then map_sum id VField (field_cmp (swapped op) g x)
               else map_sum id VField (field_cmp op f y)
           | _ \<Rightarrow> map_sum id VField (field_cmp op f y))
      | _ \<Rightarrow>
          (case y of
             VField g \<Rightarrow> map_sum id VField (field_cmp (swapped op) g x)
           | _ \<Rightarrow> Inl TypeError))"

text \<open>
  \<^verbatim>\<open>x op y\<close> for the six rich comparisons. Equality of values that are not fields
  never raises; an order exists between two numbers, two strings, two tuples and two
  lists, and comparing anything else raises \<^verbatim>\<open>TypeError\<close>. Two sequences are compared
  at the first position where their elements are not equal, and by length when there is
  none.
\<close>

function py_richcmp :: "cmpop \<Rightarrow> val \<Rightarrow> val \<Rightarrow> exn + val"
  and seq_cmp :: "cmpop \<Rightarrow> val list \<Rightarrow> val list \<Rightarrow> exn + val" where
  "py_richcmp op x y =
     (if is_field x \<or> is_field y then field_richcmp op x y
      else if op = Eq then Inr (VBool (eq_bool x y))
      else if op = Ne then Inr (VBool (\<not> eq_bool x y))
      else if is_num x \<and> is_num y then Inr (VBool (cmp_int op (num_of x) (num_of y)))
      else (case x of
              VStr s \<Rightarrow> (case y of VStr t \<Rightarrow> Inr (VBool (cmp_string op s t)) | _ \<Rightarrow> Inl TypeError)
            | VTuple xs \<Rightarrow> (case y of VTuple ys \<Rightarrow> seq_cmp op xs ys | _ \<Rightarrow> Inl TypeError)
            | VList xs \<Rightarrow> (case y of VList ys \<Rightarrow> seq_cmp op xs ys | _ \<Rightarrow> Inl TypeError)
            | _ \<Rightarrow> Inl TypeError))"
| "seq_cmp op [] ys = Inr (VBool (cmp_int op 0 (int (length ys))))"
| "seq_cmp op (x # xs) [] = Inr (VBool (cmp_int op (int (length (x # xs))) 0))"
| "seq_cmp op (x # xs) (y # ys) =
     (if eq_bool x y then seq_cmp op xs ys else py_richcmp op x y)"
  by pat_completeness auto

termination
  by (relation "measure (case_sum (\<lambda>(op, x, y). size x) (\<lambda>(op, xs, ys). size_list size xs))")
     auto

declare py_richcmp.simps [simp del]

definition py_eq :: "val \<Rightarrow> val \<Rightarrow> exn + val" where
  "py_eq x y = py_richcmp Eq x y"

definition py_lt :: "val \<Rightarrow> val \<Rightarrow> exn + val" where
  "py_lt x y = py_richcmp Lt x y"

subsection \<open>Attribute access, subscription, membership, iteration\<close>

text \<open>\<^verbatim>\<open>hash(x)\<close> succeeds. A class that defines \<^verbatim>\<open>__eq__\<close> and no \<^verbatim>\<open>__hash__\<close>, as
  \<^verbatim>\<open>Field\<close> does, has unhashable instances.\<close>

fun hashable :: "val \<Rightarrow> bool" where
  "hashable VNone = True"
| "hashable (VBool b) = True"
| "hashable (VInt i) = True"
| "hashable (VStr s) = True"
| "hashable (VTuple xs) = list_all hashable xs"
| "hashable (VList xs) = False"
| "hashable (VDict kvs) = False"
| "hashable (VObj i attrs) = True"
| "hashable (VField f) = False"

text \<open>Indexing a sequence: the index is an integer (a boolean is one), a negative
  index counts from the end.\<close>

definition seq_index :: "'a list \<Rightarrow> val \<Rightarrow> exn + 'a" where
  "seq_index xs key =
     (if is_num key
      then (let n = int (length xs); i = num_of key; j = (if i < 0 then i + n else i)
            in if 0 \<le> j \<and> j < n then Inr (xs ! nat j) else Inl IndexError)
      else Inl TypeError)"

fun dict_get :: "(val \<times> val) list \<Rightarrow> val \<Rightarrow> exn + val" where
  "dict_get [] key = Inl KeyError"
| "dict_get ((k, v) # kvs) key = (if eq_bool k key then Inr v else dict_get kvs key)"

text \<open>\<^verbatim>\<open>obj[key]\<close>. \<^verbatim>\<open>IdentityField.__getitem__\<close> makes a \<^verbatim>\<open>KeyField\<close>.\<close>

fun py_getitem :: "val \<Rightarrow> val \<Rightarrow> exn + val" where
  "py_getitem (VTuple xs) key = seq_index xs key"
| "py_getitem (VList xs) key = seq_index xs key"
| "py_getitem (VStr s) key = map_sum id (\<lambda>c. VStr [c]) (seq_index s key)"
| "py_getitem (VDict kvs) key = (if hashable key then dict_get kvs key else Inl TypeError)"
| "py_getitem (VField IdentityField) key = Inr (VField (KeyField key))"
| "py_getitem obj key = Inl TypeError"

fun is_substring :: "string \<Rightarrow> string \<Rightarrow> bool" where
  "is_substring xs [] = (xs = [])"
| "is_substring xs (y # ys) = (take (length xs) (y # ys) = xs \<or> is_substring xs ys)"

text \<open>
  \<^verbatim>\<open>x in y\<close>. The identity field has \<^verbatim>\<open>__getitem__\<close> and no \<^verbatim>\<open>__contains__\<close>, so the
  test iterates over \<^verbatim>\<open>y[0], y[1], ...\<close> and compares each item with \<^verbatim>\<open>x\<close>; the first
  item is a \<^verbatim>\<open>KeyField\<close>, whose comparison is a true value.
\<close>

fun py_contains :: "val \<Rightarrow> val \<Rightarrow> exn + bool" where
  "py_contains x (VTuple ys) = Inr (list_ex (\<lambda>e. eq_bool e x) ys)"
| "py_contains x (VList ys) = Inr (list_ex (\<lambda>e. eq_bool e x) ys)"
| "py_contains x (VDict kvs) =
     (if hashable x then Inr (list_ex (\<lambda>(k, v). eq_bool k x) kvs) else Inl TypeError)"
| "py_contains x (VStr s) = (case x of VStr t \<Rightarrow> Inr (is_substring t s) | _ \<Rightarrow> Inl TypeError)"
| "py_contains x (VField IdentityField) = Inr True"
| "py_contains x y = Inl TypeError"

text \<open>
  The part of the Python runtime that is not in this repository: calling a library
  function or a function registered by the user, reading an attribute that is not an
  instance attribute of a plain object, and calling the row constructor named in
  \<^verbatim>\<open>RETURNING\<close>. Every definition below takes it as a parameter.
\<close>

record runtime =
  ext_call :: "string \<Rightarrow> string \<Rightarrow> val list \<Rightarrow> exn + val"
  ext_getattr :: "val \<Rightarrow> string \<Rightarrow> exn + val"
  ext_new :: "string \<Rightarrow> (string \<times> val) list \<Rightarrow> exn + val"

text \<open>\<^verbatim>\<open>getattr(obj, attr)\<close>.\<close>

definition py_getattr :: "runtime \<Rightarrow> val \<Rightarrow> string \<Rightarrow> exn + val" where
  "py_getattr rt obj attr =
     (case obj of
        VObj i attrs \<Rightarrow>
          (case map_of attrs attr of Some v \<Rightarrow> Inr v | None \<Rightarrow> ext_getattr rt obj attr)
      | VField IdentityField \<Rightarrow>
          (case ext_getattr rt obj attr of Inl e \<Rightarrow> Inr (VField (AttrField attr))
           | Inr v \<Rightarrow> Inr v)
      | _ \<Rightarrow> ext_getattr rt obj attr)"

text \<open>\<^verbatim>\<open>iter(obj)\<close>, run to its end.\<close>

fun py_iter :: "val \<Rightarrow> exn + val list" where
  "py_iter (VTuple xs) = Inr xs"
| "py_iter (VList xs) = Inr xs"
| "py_iter (VStr s) = Inr (map (\<lambda>c. VStr [c]) s)"
| "py_iter (VDict kvs) = Inr (map fst kvs)"
| "py_iter (VField IdentityField) = Inl Diverges"
| "py_iter obj = Inl TypeError"

subsection \<open>The functions behind the operators\<close>

text \<open>\<^verbatim>\<open>and_\<close>, \<^verbatim>\<open>or_\<close>, \<^verbatim>\<open>not_\<close>, \<^verbatim>\<open>in_\<close> and \<^verbatim>\<open>matches\<close> of core.py. The body of
  \<^verbatim>\<open>or_(x, y)\<close> is \<^verbatim>\<open>o or y\<close>, with \<^verbatim>\<open>o\<close> the module-level identity field.\<close>

definition and_fn :: "val \<Rightarrow> val \<Rightarrow> val" where
  "and_fn x y = (if truthy x then y else x)"

definition or_fn :: "val \<Rightarrow> val \<Rightarrow> val" where
  "or_fn x y = (if truthy o_obj then o_obj else y)"

definition not_fn :: "val \<Rightarrow> val" where
  "not_fn x = VBool (\<not> truthy x)"

definition in_fn :: "val \<Rightarrow> val \<Rightarrow> exn + val" where
  "in_fn x y = map_sum id VBool (py_contains x y)"

definition matches_fn :: "runtime \<Rightarrow> val \<Rightarrow> val \<Rightarrow> exn + val" where
  "matches_fn rt x y = ext_call rt ''re'' ''match'' [y, x]"

text \<open>\<^verbatim>\<open>func(*args)\<close>: a call with the wrong number of arguments raises
  \<^verbatim>\<open>TypeError\<close>.\<close>

fun call :: "runtime \<Rightarrow> func \<Rightarrow> val list \<Rightarrow> exn + val" where
  "call rt Fn_and args = (case args of [x, y] \<Rightarrow> Inr (and_fn x y) | _ \<Rightarrow> Inl TypeError)"
| "call rt Fn_or args = (case args of [x, y] \<Rightarrow> Inr (or_fn x y) | _ \<Rightarrow> Inl TypeError)"
| "call rt Fn_not args = (case args of [x] \<Rightarrow> Inr (not_fn x) | _ \<Rightarrow> Inl TypeError)"
| "call rt Fn_in args = (case args of [x, y] \<Rightarrow> in_fn x y | _ \<Rightarrow> Inl TypeError)"
| "call rt Fn_matches args = (case args of [x, y] \<Rightarrow> matches_fn rt x y | _ \<Rightarrow> Inl TypeError)"
| "call rt Operator_eq args = (case args of [x, y] \<Rightarrow> py_richcmp Eq x y | _ \<Rightarrow> Inl TypeError)"
| "call rt Operator_ne args = (case args of [x, y] \<Rightarrow> py_richcmp Ne x y | _ \<Rightarrow> Inl TypeError)"
| "call rt Operator_lt args = (case args of [x, y] \<Rightarrow> py_richcmp Lt x y | _ \<Rightarrow> Inl TypeError)"
| "call rt Operator_le args = (case args of [x, y] \<Rightarrow> py_richcmp Le x y | _ \<Rightarrow> Inl TypeError)"
| "call rt Operator_gt args = (case args of [x, y] \<Rightarrow> py_richcmp Gt x y | _ \<Rightarrow> Inl TypeError)"
| "call rt Operator_ge args = (case args of [x, y] \<Rightarrow> py_richcmp Ge x y | _ \<Rightarrow> Inl TypeError)"
| "call rt (Extern m n) args = ext_call rt m n args"

subsection \<open>Evaluation: \<^verbatim>\<open>__call__\<close>\<close>

text \<open>
  \<open>eval rt f obj\<close> is \<^verbatim>\<open>f(obj)\<close>. The arguments of a function are evaluated from left
  to right and the first exception ends the evaluation (\<open>evals\<close>). An
  \<^verbatim>\<open>AggregateFunctionField\<close> takes an iterable of records: each argument gives the tuple
  of its values over the records (\<open>column\<close>), and the function is called on these
  tuples (\<open>columns\<close>).
\<close>

fun eval :: "runtime \<Rightarrow> field \<Rightarrow> val \<Rightarrow> exn + val"
  and evals :: "runtime \<Rightarrow> field list \<Rightarrow> val \<Rightarrow> exn + val list"
  and columns :: "runtime \<Rightarrow> field list \<Rightarrow> val \<Rightarrow> exn + val list"
  and column :: "runtime \<Rightarrow> field \<Rightarrow> val list \<Rightarrow> exn + val list" where
  "eval rt IdentityField obj = Inr obj"
| "eval rt (AttrField attr) obj = py_getattr rt obj attr"
| "eval rt (KeyField key) obj = py_getitem obj key"
| "eval rt (ConstantField v) obj = Inr v"
| "eval rt (ListField fs) obj =
     (case evals rt fs obj of Inl e \<Rightarrow> Inl e | Inr vs \<Rightarrow> Inr (VList vs))"
| "eval rt (AliasField f name) obj = eval rt f obj"
| "eval rt (FunctionField fn args name) obj =
     (case evals rt args obj of Inl e \<Rightarrow> Inl e | Inr vs \<Rightarrow> call rt fn vs)"
| "eval rt (OperatorField fn args name) obj =
     (case evals rt args obj of Inl e \<Rightarrow> Inl e | Inr vs \<Rightarrow> call rt fn vs)"
| "eval rt (AggregateFunctionField fn args name) objs =
     (case columns rt args objs of Inl e \<Rightarrow> Inl e | Inr cols \<Rightarrow> call rt fn cols)"
| "evals rt [] obj = Inr []"
| "evals rt (f # fs) obj =
     (case eval rt f obj of
        Inl e \<Rightarrow> Inl e
      | Inr v \<Rightarrow> (case evals rt fs obj of Inl e \<Rightarrow> Inl e | Inr vs \<Rightarrow> Inr (v # vs)))"
| "columns rt [] objs = Inr []"
| "columns rt (arg # args) objs =
     (case py_iter objs of
        Inl e \<Rightarrow> Inl e
      | Inr items \<Rightarrow>
          (case column rt arg items of
             Inl e \<Rightarrow> Inl e
           | Inr col \<Rightarrow>
               (case columns rt args objs of
                  Inl e \<Rightarrow> Inl e
                | Inr cols \<Rightarrow> Inr (VTuple col # cols))))"
| "column rt arg [] = Inr []"
| "column rt arg (obj # objs) =
     (case eval rt arg obj of
        Inl e \<Rightarrow> Inl e
      | Inr v \<Rightarrow> (case column rt arg objs of Inl e \<Rightarrow> Inl e | Inr vs \<Rightarrow> Inr (v # vs)))"

subsection \<open>Structural equality: \<^verbatim>\<open>_equals\<close>\<close>

text \<open>
  \<open>equals self other\<close> is the truth value of \<^verbatim>\<open>self._equals(other)\<close>, which is how
  every caller reads the result. \<^verbatim>\<open>AliasField._equals\<close> hands the comparison to the
  aliased field; every other class first tests whether \<^verbatim>\<open>other\<close> is an \<^verbatim>\<open>AliasField\<close>
  and, if so, returns \<^verbatim>\<open>other._equals(self)\<close>. Functions are compared by the identity of
  the callable and by their arguments, not by their names.
\<close>

function (sequential) equals :: "field \<Rightarrow> field \<Rightarrow> bool"
  and equals_zip :: "field list \<Rightarrow> field list \<Rightarrow> bool" where
  "equals (AliasField f name) other = equals f other"
| "equals self (AliasField g name) = equals g self"
| "equals (ListField fs) other =
     (case other of ListField gs \<Rightarrow> length fs = length gs \<and> equals_zip fs gs | _ \<Rightarrow> False)"
| "equals (KeyField key) other =
     (case other of KeyField key' \<Rightarrow> eq_bool key key' | _ \<Rightarrow> False)"
| "equals (AttrField attr) other =
     (case other of AttrField attr' \<Rightarrow> attr = attr' | _ \<Rightarrow> False)"
| "equals IdentityField other = (case other of IdentityField \<Rightarrow> True | _ \<Rightarrow> False)"
| "equals (ConstantField v) other =
     (case other of ConstantField w \<Rightarrow> eq_bool v w | _ \<Rightarrow> False)"
| "equals (FunctionField fn args name) other =
     (case other of
        FunctionField fn' args' name' \<Rightarrow>
          fn = fn' \<and> length args = length args' \<and> equals_zip args args'
      | _ \<Rightarrow> False)"
| "equals (OperatorField fn args name) other =
     (case other of
        OperatorField fn' args' name' \<Rightarrow>
          fn = fn' \<and> length args = length args' \<and> equals_zip args args'
      | _ \<Rightarrow> False)"
| "equals (AggregateFunctionField fn args name) other =
     (case other of
        AggregateFunctionField fn' args' name' \<Rightarrow>
          fn = fn' \<and> length args = length args' \<and> equals_zip args args'
      | _ \<Rightarrow> False)"
| "equals_zip (f # fs) (g # gs) = (equals f g \<and> equals_zip fs gs)"
| "equals_zip fs gs = True"
  by pat_completeness auto

termination
  by (relation "measure (case_sum (\<lambda>(f, g). size f + size g)
                                  (\<lambda>(fs, gs). size_list size fs + size_list size gs))")
     auto

text \<open>\<^verbatim>\<open>field_index\<close>: the position of the first field of the haystack that the
  needle equals, \<open>None\<close> when there is none.\<close>

fun field_index_from :: "nat \<Rightarrow> field \<Rightarrow> field list \<Rightarrow> nat option" where
  "field_index_from i needle [] = None"
| "field_index_from i needle (candidate # rest) =
     (if equals needle candidate then Some i else field_index_from (Suc i) needle rest)"

definition field_index :: "field \<Rightarrow> field list \<Rightarrow> nat option" where
  "field_index needle haystack = field_index_from 0 needle haystack"


text \<open>A runtime with no library at all, for evaluating the definitions on concrete
  inputs.\<close>

definition bare_runtime :: runtime where
  "bare_runtime =
     \<lparr>ext_call = (\<lambda>m n args. Inl (ExternError n)),
      ext_getattr = (\<lambda>obj attr. Inl AttributeError),
      ext_new = (\<lambda>name kwargs. Inl (ExternError name))\<rparr>"

text \<open>What a short-circuit \<^verbatim>\<open>x or y\<close> returns: \<^verbatim>\<open>x\<close> when it is true, \<^verbatim>\<open>y\<close>
  otherwise.\<close>

definition short_circuit_or :: "val \<Rightarrow> val \<Rightarrow> val" where
  "short_circuit_or x y = (if truthy x then x else y)"

subsection \<open>The function registry (snakeql/functions.py)\<close>

text \<open>\<^verbatim>\<open>FunctionsRegistry.field_function\<close> and \<^verbatim>\<open>aggregate_function\<close>: the callable stored
  under \<^verbatim>\<open>name\<close> (by default \<^verbatim>\<open>func.__name__\<close>) builds a node from its arguments.\<close>

definition field_function :: "func \<Rightarrow> string option \<Rightarrow> val list \<Rightarrow> exn + field" where
  "field_function fn name args =
     Inr (FunctionField_init fn (to_fields args)
            (Some (case name of None \<Rightarrow> func_name fn | Some n \<Rightarrow> n)))"

definition aggregate_function :: "func \<Rightarrow> string option \<Rightarrow> val list \<Rightarrow> exn + field" where
  "aggregate_function fn name args =
     AggregateFunctionField_init fn (to_fields args)
       (Some (case name of None \<Rightarrow> func_name fn | Some n \<Rightarrow> n))"

text \<open>The registry \<^verbatim>\<open>f._funcs\<close> as the module leaves it: every call of
  \<^verbatim>\<open>f.field_function\<close> and \<^verbatim>\<open>f.aggregate_function\<close> of functions.py, a later
  registration under the same name replacing an earlier one.\<close>

definition funcs :: "string \<Rightarrow> (val list \<Rightarrow> exn + field) option" where
  "funcs = map_of
     [(''add'', field_function (Extern ''operator'' ''add'') None),
      (''sub'', field_function (Extern ''operator'' ''sub'') None),
      (''mul'', field_function (Extern ''operator'' ''mul'') None),
      (''div'', field_function (Extern ''operator'' ''truediv'') (Some ''div'')),
      (''mod'', field_function (Extern ''operator'' ''mod'') None),
      (''pow'', field_function (Extern ''operator'' ''pow'') None),
      (''abs'', field_function (Extern ''operator'' ''abs'') None),
      (''round'', field_function (Extern ''builtins'' ''round'') None),
      (''concat'', field_function (Extern ''operator'' ''concat'') None),
      (''str'', field_function (Extern ''builtins'' ''str'') None),
      (''upper'', field_function (Extern ''str'' ''upper'') None),
      (''lower'', field_function (Extern ''str'' ''lower'') None),
      (''replace'', field_function (Extern ''str'' ''replace'') None),
      (''len'', field_function (Extern ''builtins'' ''len'') None),
      (''randint'', field_function (Extern ''random'' ''randint'') None),
      (''random'', field_function (Extern ''random'' ''random'') None),
      (''count'', aggregate_function (Extern ''builtins'' ''len'') (Some ''count'')),
      (''sum'', aggregate_function (Extern ''builtins'' ''sum'') None),
      (''max'', aggregate_function (Extern ''builtins'' ''max'') None),
      (''min'', aggregate_function (Extern ''builtins'' ''min'') None),
      (''list'', aggregate_function (Extern ''builtins'' ''list'') None),
      (''tuple'', aggregate_function (Extern ''builtins'' ''tuple'') None),
      (''set'', aggregate_function (Extern ''builtins'' ''set'') None),
      (''product'', aggregate_function (Extern ''snakeql.functions'' ''product'') None),
      (''join'', aggregate_function (Extern ''snakeql.functions'' ''join'') None),
      (''first'', aggregate_function (Extern ''snakeql.functions'' ''first'') None),
      (''average'', aggregate_function (Extern ''snakeql.functions'' ''average'') None),
      (''weighted_average'',
         aggregate_function (Extern ''snakeql.functions'' ''weighted_average'') None)]"

text \<open>The fields that the constructors of core.py can build, and the property that
  every \<^verbatim>\<open>AggregateFunctionField\<close> node of a tree has mappers for arguments.\<close>

inductive constructed :: "field \<Rightarrow> bool" where
  c_identity: "constructed IdentityField"
| c_attr: "constructed (AttrField attr)"
| c_key: "constructed (KeyField key)"
| c_constant: "constructed (ConstantField v)"
| c_list: "\<forall>f \<in> set fs. constructed f \<Longrightarrow> constructed (ListField fs)"
| c_alias: "constructed f \<Longrightarrow> AliasField_init (VField f) name = Inr g \<Longrightarrow> constructed g"
| c_function: "\<forall>a \<in> set args. constructed a \<Longrightarrow> constructed (FunctionField_init fn args name)"
| c_operator: "\<forall>a \<in> set args. constructed a \<Longrightarrow> OperatorField_init fn args name = Inr g
               \<Longrightarrow> constructed g"
| c_aggregate: "\<forall>a \<in> set args. constructed a \<Longrightarrow> AggregateFunctionField_init fn args name = Inr g
               \<Longrightarrow> constructed g"

fun aggregates_ok :: "field \<Rightarrow> bool" where
  "aggregates_ok (ListField fs) = list_all aggregates_ok fs"
| "aggregates_ok (AliasField f name) = aggregates_ok f"
| "aggregates_ok (FunctionField fn args name) = list_all aggregates_ok args"
| "aggregates_ok (OperatorField fn args name) = list_all aggregates_ok args"
| "aggregates_ok (AggregateFunctionField fn args name) =
     (list_all is_mapper args \<and> list_all aggregates_ok args)"
| "aggregates_ok f = True"

subsection \<open>Printing: \<^verbatim>\<open>repr\<close> of values, \<^verbatim>\<open>__str__\<close> of fields\<close>

definition digit_char :: "nat \<Rightarrow> char" where
  "digit_char n = char_of (48 + n)"

definition hex_char :: "nat \<Rightarrow> char" where
  "hex_char n = (if n < 10 then char_of (48 + n) else char_of (87 + n))"

function nat_digits :: "nat \<Rightarrow> string" where
  "nat_digits n = (if n < 10 then [digit_char n] else nat_digits (n div 10) @ [digit_char (n mod 10)])"
  by pat_completeness auto

termination
  by (relation "measure id") auto

declare nat_digits.simps [simp del]

definition int_repr :: "int \<Rightarrow> string" where
  "int_repr i = (if i < 0 then CHR ''-'' # nat_digits (nat (- i)) else nat_digits (nat i))"

text \<open>
  \<^verbatim>\<open>repr\<close> of a string: double quotes when the string holds a single quote and no double
  quote, single quotes otherwise; the quote and the backslash are escaped with a
  backslash, tab, newline and carriage return are written \<^verbatim>\<open>\t\<close>, \<^verbatim>\<open>\n\<close>, \<^verbatim>\<open>\r\<close>, and any
  other character that is not printable is written \<^verbatim>\<open>\xhh\<close>. Characters are the code
  points 0 to 255.
\<close>

definition str_quote :: "string \<Rightarrow> char" where
  "str_quote s = (if CHR 0x27 \<in> set s \<and> CHR 0x22 \<notin> set s then CHR 0x22 else CHR 0x27)"

definition printable :: "char \<Rightarrow> bool" where
  "printable c \<longleftrightarrow>
     (let n = (of_char c :: nat) in (32 \<le> n \<and> n < 127) \<or> (161 \<le> n \<and> n \<noteq> 173))"

definition repr_char :: "char \<Rightarrow> char \<Rightarrow> string" where
  "repr_char quote c =
     (if c = quote \<or> c = CHR 0x5C then [CHR 0x5C, c]
      else if c = CHR 0x09 then [CHR 0x5C, CHR ''t'']
      else if c = CHR 0x0A then [CHR 0x5C, CHR ''n'']
      else if c = CHR 0x0D then [CHR 0x5C, CHR ''r'']
      else if printable c then [c]
      else [CHR 0x5C, CHR ''x'', hex_char (of_char c div 16), hex_char (of_char c mod 16)])"

definition str_repr :: "string \<Rightarrow> string" where
  "str_repr s = (let quote = str_quote s in [quote] @ concat (map (repr_char quote) s) @ [quote])"

text \<open>\<^verbatim>\<open>sep.join(strings)\<close>.\<close>

fun join :: "string \<Rightarrow> string list \<Rightarrow> string" where
  "join sep [] = []"
| "join sep [s] = s"
| "join sep (s # t # ss) = s @ sep @ join sep (t # ss)"

text \<open>\<^verbatim>\<open>repr(v)\<close>. The text that stands for an instance of a user class or for a field
  object holds an address or the \<^verbatim>\<open>repr\<close> of a function: it is the parameter
  \<open>ext_repr\<close>.\<close>

function py_repr :: "(val \<Rightarrow> string) \<Rightarrow> val \<Rightarrow> string"
  and repr_items :: "(val \<Rightarrow> string) \<Rightarrow> val list \<Rightarrow> string list"
  and repr_entries :: "(val \<Rightarrow> string) \<Rightarrow> (val \<times> val) list \<Rightarrow> string list" where
  "py_repr ext_repr VNone = ''None''"
| "py_repr ext_repr (VBool b) = (if b then ''True'' else ''False'')"
| "py_repr ext_repr (VInt i) = int_repr i"
| "py_repr ext_repr (VStr s) = str_repr s"
| "py_repr ext_repr (VTuple xs) =
     ''('' @ join '', '' (repr_items ext_repr xs) @ (if length xs = 1 then '',)'' else '')'')"
| "py_repr ext_repr (VList xs) = ''['' @ join '', '' (repr_items ext_repr xs) @ '']''"
| "py_repr ext_repr (VDict kvs) = ''{'' @ join '', '' (repr_entries ext_repr kvs) @ ''}''"
| "py_repr ext_repr (VObj i attrs) = ext_repr (VObj i attrs)"
| "py_repr ext_repr (VField f) = ext_repr (VField f)"
| "repr_items ext_repr [] = []"
| "repr_items ext_repr (x # xs) = py_repr ext_repr x # repr_items ext_repr xs"
| "repr_entries ext_repr [] = []"
| "repr_entries ext_repr ((k, v) # kvs) =
     (py_repr ext_repr k @ '': '' @ py_repr ext_repr v) # repr_entries ext_repr kvs"
  by pat_completeness auto

termination
  by (relation "measure (case_sum (\<lambda>(e, v). size v)
          (case_sum (\<lambda>(e, xs). size_list size xs)
                    (\<lambda>(e, kvs). size_list (size_prod size size) kvs)))")
     auto

text \<open>\<^verbatim>\<open>fields_to_str\<close> applied to the strings of the fields of a sequence.\<close>

fun seq_to_str :: "string list \<Rightarrow> string" where
  "seq_to_str [] = ''()''"
| "seq_to_str [s] = s @ '',''"
| "seq_to_str ss = join '', '' ss"

text \<open>\<^verbatim>\<open>str(field)\<close>: the \<^verbatim>\<open>__str__\<close> methods. An \<^verbatim>\<open>OperatorField\<close> has one or two
  arguments, by the assertion of its constructor.\<close>

fun field_str :: "(val \<Rightarrow> string) \<Rightarrow> field \<Rightarrow> string"
  and fields_str :: "(val \<Rightarrow> string) \<Rightarrow> field list \<Rightarrow> string list" where
  "field_str ext_repr IdentityField = ''o''"
| "field_str ext_repr (AttrField attr) = ''o.'' @ attr"
| "field_str ext_repr (KeyField key) = ''o['' @ py_repr ext_repr key @ '']''"
| "field_str ext_repr (ConstantField v) = py_repr ext_repr v"
| "field_str ext_repr (ListField fs) = join '', '' (fields_str ext_repr fs)"
| "field_str ext_repr (AliasField f name) = field_str ext_repr f @ '' AS '' @ name"
| "field_str ext_repr (FunctionField fn args name) =
     name @ ''('' @ join '', '' (fields_str ext_repr args) @ '')''"
| "field_str ext_repr (AggregateFunctionField fn args name) =
     name @ ''('' @ join '', '' (fields_str ext_repr args) @ '')''"
| "field_str ext_repr (OperatorField fn args name) =
     (case fields_str ext_repr args of
        [a, b] \<Rightarrow> ''('' @ a @ '' '' @ name @ '' '' @ b @ '')''
      | a # _ \<Rightarrow> name @ '' '' @ a
      | [] \<Rightarrow> name @ '' '')"
| "fields_str ext_repr [] = []"
| "fields_str ext_repr (f # fs) = field_str ext_repr f # fields_str ext_repr fs"

definition fields_to_str :: "(val \<Rightarrow> string) \<Rightarrow> field list \<Rightarrow> string" where
  "fields_to_str ext_repr fs = seq_to_str (fields_str ext_repr fs)"

text \<open>\<^verbatim>\<open>str(v)\<close>.\<close>

definition py_str :: "(val \<Rightarrow> string) \<Rightarrow> val \<Rightarrow> string" where
  "py_str ext_repr v =
     (case v of VStr s \<Rightarrow> s | VField f \<Rightarrow> field_str ext_repr f | _ \<Rightarrow> py_repr ext_repr v)"

text \<open>\<^verbatim>\<open>str.splitlines\<close>, \<^verbatim>\<open>indent\<close> and \<^verbatim>\<open>block\<close>.\<close>

definition line_break :: "char \<Rightarrow> bool" where
  "line_break c \<longleftrightarrow> of_char c \<in> {10, 11, 12, 13, 28, 29, 30, 133 :: nat}"

fun splitlines_from :: "string \<Rightarrow> string \<Rightarrow> string list" where
  "splitlines_from cur [] = (if cur = [] then [] else [cur])"
| "splitlines_from cur [c] = (if line_break c then [cur] else [cur @ [c]])"
| "splitlines_from cur (c # d # cs) =
     (if c = CHR 0x0D \<and> d = CHR 0x0A then cur # splitlines_from [] cs
      else if line_break c then cur # splitlines_from [] (d # cs)
      else splitlines_from (cur @ [c]) (d # cs))"

definition splitlines :: "string \<Rightarrow> string list" where
  "splitlines text = splitlines_from [] text"

definition indent :: "string \<Rightarrow> string" where
  "indent text = join [CHR 0x0A] (map (\<lambda>line. ''    '' @ line) (splitlines text))"

definition block :: "string \<Rightarrow> string" where
  "block text =
     (if length (splitlines text) = 1 then text
      else ''('' @ [CHR 0x0A] @ indent text @ [CHR 0x0A] @ '')'')"

subsection \<open>Queries: \<^verbatim>\<open>SELECT\<close> and the clauses of \<^verbatim>\<open>SelectQuery\<close>\<close>

text \<open>A class used as return type, by its \<^verbatim>\<open>__name__\<close>.\<close>

datatype pytype = PyType string

record select_query =
  q_fields :: "field list"
  q_flatten :: bool
  q_distinct :: bool
  q_where :: "field option"
  q_group_by :: "field list option"
  q_return_type :: "pytype option"

text \<open>\<^verbatim>\<open>SelectQuery(fields, flatten)\<close>, the other arguments at their defaults.\<close>

definition SelectQuery :: "field list \<Rightarrow> bool \<Rightarrow> select_query" where
  "SelectQuery flds flat =
     \<lparr>q_fields = flds, q_flatten = flat, q_distinct = False, q_where = None,
      q_group_by = None, q_return_type = None\<rparr>"

text \<open>\<^verbatim>\<open>SELECT(*fields)\<close>: the arguments are the list \<open>args\<close>.\<close>

fun SELECT :: "val list \<Rightarrow> select_query" where
  "SELECT [] = SelectQuery [IdentityField] True"
| "SELECT [fld] =
     (case fld of
        VList xs \<Rightarrow> SelectQuery (to_fields xs) False
      | VTuple xs \<Rightarrow> SelectQuery (to_fields xs) False
      | _ \<Rightarrow> SelectQuery [to_field fld] True)"
| "SELECT args = SelectQuery (to_fields args) False"

text \<open>\<^verbatim>\<open>_replace\<close>: an argument that is \<^verbatim>\<open>None\<close> keeps the value of the query.\<close>

definition replace ::
  "select_query \<Rightarrow> bool option \<Rightarrow> bool option \<Rightarrow> field option \<Rightarrow> field list option
     \<Rightarrow> pytype option \<Rightarrow> select_query" where
  "replace q flat dist wh gb rty =
     \<lparr>q_fields = q_fields q,
      q_flatten = (case flat of None \<Rightarrow> q_flatten q | Some b \<Rightarrow> b),
      q_distinct = (case dist of None \<Rightarrow> q_distinct q | Some b \<Rightarrow> b),
      q_where = (case wh of None \<Rightarrow> q_where q | Some w \<Rightarrow> Some w),
      q_group_by = (case gb of None \<Rightarrow> q_group_by q | Some g \<Rightarrow> Some g),
      q_return_type = (case rty of None \<Rightarrow> q_return_type q | Some t \<Rightarrow> Some t)\<rparr>"

definition DISTINCT :: "select_query \<Rightarrow> select_query" where
  "DISTINCT q = replace q None (Some True) None None None"

text \<open>\<^verbatim>\<open>WHERE\<close>: a value that is not a field has no method \<^verbatim>\<open>_is_mapper\<close>.\<close>

definition WHERE :: "select_query \<Rightarrow> val \<Rightarrow> exn + select_query" where
  "WHERE q wh =
     (case wh of
        VField w \<Rightarrow>
          if is_mapper w then Inr (replace q None None (Some (to_field wh)) None None)
          else Inl (AssertionError ''cannot use an aggregate function in WHERE'')
      | _ \<Rightarrow> Inl AttributeError)"

text \<open>The loop of \<^verbatim>\<open>GROUP_BY\<close> over the fields of the projection.\<close>

fun check_grouped :: "(val \<Rightarrow> string) \<Rightarrow> field list \<Rightarrow> field list \<Rightarrow> exn + unit" where
  "check_grouped ext_repr [] gb = Inr ()"
| "check_grouped ext_repr (select_field # rest) gb =
     (if field_index select_field gb = None \<and> \<not> is_aggregator select_field
      then Inl (ValueError (field_str ext_repr select_field
                   @ '' is neither in GROUP BY or an aggregate function''))
      else check_grouped ext_repr rest gb)"

definition GROUP_BY :: "(val \<Rightarrow> string) \<Rightarrow> select_query \<Rightarrow> val list \<Rightarrow> exn + select_query" where
  "GROUP_BY ext_repr q args =
     (let gb = to_fields args
      in if \<not> list_all is_mapper gb
         then Inl (AssertionError ''cannot use an aggregate function in GROUP BY'')
         else (case check_grouped ext_repr (q_fields q) gb of
                 Inl e \<Rightarrow> Inl e
               | Inr u \<Rightarrow> Inr (replace q None None None (Some gb) None)))"

definition RETURNING :: "select_query \<Rightarrow> pytype \<Rightarrow> select_query" where
  "RETURNING q return_type = replace q (Some False) None None None (Some return_type)"

subsection \<open>Execution: \<^verbatim>\<open>SelectQuery.__call__\<close>\<close>

text \<open>
  A generator is what it yields when it is run to its end: the items and, when the run
  ends with an exception, the exception. The input of a query is a list of records.
\<close>

type_synonym 'a gen = "'a list \<times> exn option"

text \<open>\<^verbatim>\<open>for r in res: yield f(r)\<close>.\<close>

fun map_gen :: "('a \<Rightarrow> exn + 'b) \<Rightarrow> 'a list \<Rightarrow> exn option \<Rightarrow> 'b gen" where
  "map_gen f [] fin = ([], fin)"
| "map_gen f (x # xs) fin =
     (case f x of
        Inl e \<Rightarrow> ([], Some e)
      | Inr y \<Rightarrow> (case map_gen f xs fin of (ys, e) \<Rightarrow> (y # ys, e)))"

text \<open>\<^verbatim>\<open>_where\<close>: \<^verbatim>\<open>filter(self.where, res)\<close>.\<close>

fun filter_gen :: "runtime \<Rightarrow> field \<Rightarrow> val list \<Rightarrow> exn option \<Rightarrow> val gen" where
  "filter_gen rt w [] fin = ([], fin)"
| "filter_gen rt w (x # xs) fin =
     (case eval rt w x of
        Inl e \<Rightarrow> ([], Some e)
      | Inr v \<Rightarrow> (case filter_gen rt w xs fin of (ys, e) \<Rightarrow> (if truthy v then x # ys else ys, e)))"

definition where_stage :: "runtime \<Rightarrow> select_query \<Rightarrow> val gen \<Rightarrow> val gen" where
  "where_stage rt q res =
     (case q_where q of None \<Rightarrow> res | Some w \<Rightarrow> filter_gen rt w (fst res) (snd res))"

text \<open>\<^verbatim>\<open>_select\<close>: each record gives the tuple of the values of the fields.\<close>

definition select_row :: "runtime \<Rightarrow> field list \<Rightarrow> val \<Rightarrow> exn + val" where
  "select_row rt flds r = map_sum id VTuple (evals rt flds r)"

definition select_stage :: "runtime \<Rightarrow> field list \<Rightarrow> val gen \<Rightarrow> val gen" where
  "select_stage rt flds res = map_gen (select_row rt flds) (fst res) (snd res)"

text \<open>\<^verbatim>\<open>_flatten\<close>: \<^verbatim>\<open>(r[0] for r in res)\<close> when the query flattens.\<close>

definition flatten_stage :: "select_query \<Rightarrow> val gen \<Rightarrow> val gen" where
  "flatten_stage q res =
     (if q_flatten q then map_gen (\<lambda>r. py_getitem r (VInt 0)) (fst res) (snd res) else res)"

text \<open>\<^verbatim>\<open>_distinct\<close>: a row is yielded when it is not in the set of the rows seen; a row
  that cannot be hashed raises \<^verbatim>\<open>TypeError\<close>.\<close>

fun distinct_gen :: "val list \<Rightarrow> val list \<Rightarrow> exn option \<Rightarrow> val gen" where
  "distinct_gen seen [] fin = ([], fin)"
| "distinct_gen seen (r # rs) fin =
     (if \<not> hashable r then ([], Some TypeError)
      else if list_ex (\<lambda>s. eq_bool s r) seen then distinct_gen seen rs fin
      else (case distinct_gen (seen @ [r]) rs fin of (ys, e) \<Rightarrow> (r # ys, e)))"

definition distinct_stage :: "select_query \<Rightarrow> val gen \<Rightarrow> val gen" where
  "distinct_stage q res = (if q_distinct q then distinct_gen [] (fst res) (snd res) else res)"

text \<open>\<^verbatim>\<open>_name()\<close> of a field: the key of a \<^verbatim>\<open>KeyField\<close> as it is, a string for every
  other class; the names of a \<^verbatim>\<open>ListField\<close> are joined, which needs strings.\<close>

fun field_name :: "(val \<Rightarrow> string) \<Rightarrow> field \<Rightarrow> exn + val"
  and join_names :: "(val \<Rightarrow> string) \<Rightarrow> field list \<Rightarrow> exn + string list" where
  "field_name ext_repr IdentityField = Inr (VStr ''o'')"
| "field_name ext_repr (AttrField attr) = Inr (VStr attr)"
| "field_name ext_repr (KeyField key) = Inr key"
| "field_name ext_repr (ConstantField v) = Inr (VStr (py_str ext_repr v))"
| "field_name ext_repr (AliasField f name) = Inr (VStr name)"
| "field_name ext_repr (ListField fs) =
     (case join_names ext_repr fs of Inl e \<Rightarrow> Inl e | Inr ns \<Rightarrow> Inr (VStr (join '','' ns)))"
| "field_name ext_repr (FunctionField fn args name) =
     Inr (VStr (field_str ext_repr (FunctionField fn args name)))"
| "field_name ext_repr (OperatorField fn args name) =
     Inr (VStr (field_str ext_repr (OperatorField fn args name)))"
| "field_name ext_repr (AggregateFunctionField fn args name) =
     Inr (VStr (field_str ext_repr (AggregateFunctionField fn args name)))"
| "join_names ext_repr [] = Inr []"
| "join_names ext_repr (f # fs) =
     (case field_name ext_repr f of
        Inl e \<Rightarrow> Inl e
      | Inr n \<Rightarrow>
          (case join_names ext_repr fs of
             Inl e \<Rightarrow> Inl e
           | Inr ns \<Rightarrow> (case n of VStr s \<Rightarrow> Inr (s # ns) | _ \<Rightarrow> Inl TypeError)))"

fun map_exn :: "('a \<Rightarrow> exn + 'b) \<Rightarrow> 'a list \<Rightarrow> exn + 'b list" where
  "map_exn f [] = Inr []"
| "map_exn f (x # xs) =
     (case f x of
        Inl e \<Rightarrow> Inl e
      | Inr y \<Rightarrow> (case map_exn f xs of Inl e \<Rightarrow> Inl e | Inr ys \<Rightarrow> Inr (y # ys)))"

text \<open>\<^verbatim>\<open>return_type(**dict(zip(names, r)))\<close>: the names are the keys of a dictionary, so
  they are hashable and a later value replaces an earlier one under the same name; as
  keywords they are strings.\<close>

fun dict_set :: "(val \<times> val) list \<Rightarrow> val \<Rightarrow> val \<Rightarrow> (val \<times> val) list" where
  "dict_set [] key v = [(key, v)]"
| "dict_set ((k, w) # kvs) key v =
     (if eq_bool k key then (k, v) # kvs else (k, w) # dict_set kvs key v)"

fun kw_args :: "(val \<times> val) list \<Rightarrow> exn + (string \<times> val) list" where
  "kw_args [] = Inr []"
| "kw_args ((k, v) # kvs) =
     (case k of
        VStr s \<Rightarrow> (case kw_args kvs of Inl e \<Rightarrow> Inl e | Inr r \<Rightarrow> Inr ((s, v) # r))
      | _ \<Rightarrow> Inl TypeError)"

definition returning_row :: "runtime \<Rightarrow> pytype \<Rightarrow> val list \<Rightarrow> val \<Rightarrow> exn + val" where
  "returning_row rt return_type names r =
     (case py_iter r of
        Inl e \<Rightarrow> Inl e
      | Inr vs \<Rightarrow>
          if \<not> list_all hashable (take (length vs) names) then Inl TypeError
          else (case kw_args (foldl (\<lambda>d (k, v). dict_set d k v) [] (zip names vs)) of
                  Inl e \<Rightarrow> Inl e
                | Inr kwargs \<Rightarrow> (case return_type of PyType n \<Rightarrow> ext_new rt n kwargs)))"

definition returning_stage :: "runtime \<Rightarrow> (val \<Rightarrow> string) \<Rightarrow> select_query \<Rightarrow> val gen \<Rightarrow> val gen" where
  "returning_stage rt ext_repr q res =
     (case q_return_type q of
        None \<Rightarrow> res
      | Some return_type \<Rightarrow>
          (case map_exn (field_name ext_repr) (q_fields q) of
             Inl e \<Rightarrow> ([], Some e)
           | Inr names \<Rightarrow> map_gen (returning_row rt return_type names) (fst res) (snd res)))"

text \<open>
  \<^verbatim>\<open>sorted(pairs, key=KeyValuePair.key)\<close>. The sort is the library's: it is stable and
  compares keys with \<^verbatim>\<open><\<close>. It is modelled by insertion from the left, each pair placed
  before the first pair whose key is greater; on keys that \<^verbatim>\<open><\<close> orders totally every
  stable sort returns this list. An exception raised by a comparison ends the sort.
\<close>

fun insort_pair :: "val \<times> val \<Rightarrow> (val \<times> val) list \<Rightarrow> exn + (val \<times> val) list" where
  "insort_pair p [] = Inr [p]"
| "insort_pair p (q # qs) =
     (case py_lt (fst p) (fst q) of
        Inl e \<Rightarrow> Inl e
      | Inr b \<Rightarrow>
          if truthy b then Inr (p # q # qs)
          else (case insort_pair p qs of Inl e \<Rightarrow> Inl e | Inr r \<Rightarrow> Inr (q # r)))"

fun sort_into :: "(val \<times> val) list \<Rightarrow> (val \<times> val) list \<Rightarrow> exn + (val \<times> val) list" where
  "sort_into acc [] = Inr acc"
| "sort_into acc (p # ps) =
     (case insort_pair p acc of Inl e \<Rightarrow> Inl e | Inr acc' \<Rightarrow> sort_into acc' ps)"

definition py_sorted :: "(val \<times> val) list \<Rightarrow> exn + (val \<times> val) list" where
  "py_sorted ps = sort_into [] ps"

text \<open>\<^verbatim>\<open>itertools.groupby(pairs, key=KeyValuePair.key)\<close> with the loop of \<^verbatim>\<open>_group\<close>: a
  group is a longest run of pairs whose keys equal the key of its first pair, and gives
  that key with the values of the run.\<close>

function groupby :: "(val \<times> val) list \<Rightarrow> (val \<times> val list) list" where
  "groupby [] = []"
| "groupby ((k, v) # ps) =
     (k, v # map snd (takeWhile (\<lambda>p. eq_bool k (fst p)) ps))
       # groupby (dropWhile (\<lambda>p. eq_bool k (fst p)) ps)"
  by pat_completeness auto

termination
  by (relation "measure length") (auto simp: length_dropWhile_le less_Suc_eq_le)

text \<open>\<^verbatim>\<open>_group\<close>: the records are put in a list, which raises what the filter raises;
  the keys are computed record by record, then the pairs are sorted and grouped.\<close>

definition group_stage :: "runtime \<Rightarrow> field list \<Rightarrow> val gen \<Rightarrow> (val \<times> val list) gen" where
  "group_stage rt gb res =
     (case snd res of
        Some e \<Rightarrow> ([], Some e)
      | None \<Rightarrow>
          (case map_exn (select_row rt gb) (fst res) of
             Inl e \<Rightarrow> ([], Some e)
           | Inr keys \<Rightarrow>
               (case py_sorted (zip keys (fst res)) of
                  Inl e \<Rightarrow> ([], Some e)
                | Inr pairs \<Rightarrow> (groupby pairs, None))))"

text \<open>\<^verbatim>\<open>_make_group_by_field\<close>: the function of a group, a pair of its key and its
  records, that gives the value of one field of the projection.\<close>

definition make_group_by_field ::
  "runtime \<Rightarrow> field list \<Rightarrow> field \<Rightarrow> val \<times> val list \<Rightarrow> exn + val" where
  "make_group_by_field rt gb select_field =
     (case field_index select_field gb of
        Some idx \<Rightarrow> (\<lambda>pair. py_getitem (fst pair) (VInt (int idx)))
      | None \<Rightarrow> (\<lambda>pair. eval rt select_field (VList (snd pair))))"

definition group_row :: "runtime \<Rightarrow> field list \<Rightarrow> field list \<Rightarrow> val \<times> val list \<Rightarrow> exn + val" where
  "group_row rt gb flds pair =
     map_sum id VTuple (map_exn (\<lambda>f. make_group_by_field rt gb f pair) flds)"

text \<open>The check of \<^verbatim>\<open>__call__\<close> when there is no \<^verbatim>\<open>GROUP BY\<close>.\<close>

fun check_mappers :: "(val \<Rightarrow> string) \<Rightarrow> field list \<Rightarrow> exn + unit" where
  "check_mappers ext_repr [] = Inr ()"
| "check_mappers ext_repr (f # fs) =
     (if \<not> is_mapper f
      then Inl (ValueError (''cannot use aggregate function '' @ field_str ext_repr f
                   @ '' without GROUP BY''))
      else check_mappers ext_repr fs)"

text \<open>\<^verbatim>\<open>__call__\<close>: the generator held by the \<^verbatim>\<open>SelectResult\<close>, or the exception raised
  by the call itself.\<close>

definition project_stage ::
  "runtime \<Rightarrow> (val \<Rightarrow> string) \<Rightarrow> select_query \<Rightarrow> val gen \<Rightarrow> exn + val gen" where
  "project_stage rt ext_repr q res =
     (case q_group_by q of
        None \<Rightarrow>
          (case check_mappers ext_repr (q_fields q) of
             Inl e \<Rightarrow> Inl e
           | Inr u \<Rightarrow> Inr (select_stage rt (q_fields q) res))
      | Some gb \<Rightarrow>
          (case group_stage rt gb res of
             (groups, fin) \<Rightarrow> Inr (map_gen (group_row rt gb (q_fields q)) groups fin)))"

definition call_query ::
  "runtime \<Rightarrow> (val \<Rightarrow> string) \<Rightarrow> select_query \<Rightarrow> val list \<Rightarrow> exn + val gen" where
  "call_query rt ext_repr q objects =
     (case project_stage rt ext_repr q (where_stage rt q (objects, None)) of
        Inl e \<Rightarrow> Inl e
      | Inr res \<Rightarrow>
          Inr (returning_stage rt ext_repr q (distinct_stage q (flatten_stage q res))))"

subsection \<open>\<^verbatim>\<open>SelectResult\<close>\<close>

text \<open>\<^verbatim>\<open>list()\<close> runs the generator to its end.\<close>

definition result_list :: "val gen \<Rightarrow> exn + val list" where
  "result_list res = (case snd res of None \<Rightarrow> Inr (fst res) | Some e \<Rightarrow> Inl e)"

text \<open>
  \<^verbatim>\<open>one()\<close> calls \<^verbatim>\<open>next\<close> once, and once more when the first call gave a row. The
  result is paired with what is left of the generator: a generator that has raised or
  has reached its end is exhausted.
\<close>

definition one :: "val gen \<Rightarrow> (exn + val) \<times> val gen" where
  "one res =
     (case fst res of
        [] \<Rightarrow>
          (case snd res of
             None \<Rightarrow> (Inl (ValueError ''no items in in result''), ([], None))
           | Some e \<Rightarrow> (Inl e, ([], None)))
      | first # rest \<Rightarrow>
          (case rest of
             [] \<Rightarrow>
               (case snd res of
                  None \<Rightarrow> (Inr first, ([], None))
                | Some e \<Rightarrow> (Inl e, ([], None)))
           | second # rest' \<Rightarrow>
               (Inl (ValueError ''more than one item in result''), (rest', snd res))))"

subsection \<open>Order of the group keys\<close>

text \<open>The truth value of \<^verbatim>\<open>a < b\<close> when the comparison returns, and whether it
  returns.\<close>

definition lt_bool :: "val \<Rightarrow> val \<Rightarrow> bool" where
  "lt_bool a b = (case py_lt a b of Inl e \<Rightarrow> False | Inr v \<Rightarrow> truthy v)"

definition comparable :: "val \<Rightarrow> val \<Rightarrow> bool" where
  "comparable a b = (case py_lt a b of Inl e \<Rightarrow> False | Inr v \<Rightarrow> True)"

text \<open>
  On the keys of a set, \<^verbatim>\<open><\<close> and \<^verbatim>\<open>==\<close> form a total order: of \<^verbatim>\<open>a < b\<close>, \<^verbatim>\<open>a == b\<close>
  and \<^verbatim>\<open>b < a\<close> exactly one holds, and \<^verbatim>\<open><\<close> and \<^verbatim>\<open>==\<close> are transitive.
\<close>

definition ord_on :: "val set \<Rightarrow> bool" where
  "ord_on S \<longleftrightarrow>
     (\<forall>a\<in>S. \<forall>b\<in>S.
        (lt_bool a b \<or> eq_bool a b \<or> lt_bool b a)
        \<and> \<not> (lt_bool a b \<and> eq_bool a b)
        \<and> \<not> (lt_bool a b \<and> lt_bool b a)
        \<and> (\<forall>c\<in>S. (lt_bool a b \<and> lt_bool b c \<longrightarrow> lt_bool a c)
                  \<and> (eq_bool a b \<and> eq_bool b c \<longrightarrow> eq_bool a c)))"

text \<open>The keys of a list can be sorted: every comparison of two of them returns, and
  they are totally ordered.\<close>

definition keys_ordered :: "val list \<Rightarrow> bool" where
  "keys_ordered ks \<longleftrightarrow> (\<forall>a\<in>set ks. \<forall>b\<in>set ks. comparable a b) \<and> ord_on (set ks)"

text \<open>The insertion of \<open>insort_pair\<close> when no comparison raises.\<close>

fun ins :: "val \<times> val \<Rightarrow> (val \<times> val) list \<Rightarrow> (val \<times> val) list" where
  "ins p [] = [p]"
| "ins p (q # qs) = (if lt_bool (fst p) (fst q) then p # q # qs else q # ins p qs)"

text \<open>A runtime whose library is \<^verbatim>\<open>len\<close> alone, for evaluating an aggregate function
  on concrete groups.\<close>

definition len_runtime :: runtime where
  "len_runtime =
     \<lparr>ext_call = (\<lambda>m n args.
         if m = ''builtins'' \<and> n = ''len''
         then (case args of
                 [VTuple xs] \<Rightarrow> Inr (VInt (int (length xs)))
               | [VList xs] \<Rightarrow> Inr (VInt (int (length xs)))
               | [VStr s] \<Rightarrow> Inr (VInt (int (length s)))
               | [VDict kvs] \<Rightarrow> Inr (VInt (int (length kvs)))
               | _ \<Rightarrow> Inl TypeError)
         else Inl (ExternError n)),
      ext_getattr = (\<lambda>obj attr. Inl AttributeError),
      ext_new = (\<lambda>name kwargs. Inl (ExternError name))\<rparr>"

section \<open>The lexer (snakeql/lexer.py)\<close>

text \<open>
  A token has a type and a value. A keyword token has the keyword, in upper case, for
  type and value; a literal token is one of the characters of \<^verbatim>\<open>literals\<close>. The value of
  a \<^verbatim>\<open>FLOAT\<close> token is a floating-point number, which is outside the value universe: the
  lexer of the model ends with \<open>Unmodelled\<close> where the source makes such a token.
\<close>

datatype token =
    T_KW string
  | T_COMPARE string
  | T_ID string
  | T_STR string
  | T_INT int
  | T_POW
  | T_LIT char

definition literals :: string where
  "literals = ''()[],.+-/*%''"

definition keywords_set :: "string list" where
  "keywords_set = [''SELECT'', ''DISTINCT'', ''WHERE'', ''GROUP'', ''BY'', ''AS'', ''RETURNING'',
                   ''AND'', ''OR'', ''NOT'', ''TRUE'', ''FALSE'', ''NONE'', ''O'', ''IN'']"

definition compare_ids :: "string list" where
  "compare_ids = [''IS'', ''IN'', ''CONTAINS'', ''MATCHES'', ''LIKE'']"

text \<open>\<^verbatim>\<open>str.upper\<close> on the letters an identifier can hold.\<close>

definition upper_char :: "char \<Rightarrow> char" where
  "upper_char c =
     (let n = (of_char c :: nat) in if 97 \<le> n \<and> n \<le> 122 then char_of (n - 32) else c)"

definition upper :: "string \<Rightarrow> string" where
  "upper s = map upper_char s"

text \<open>\<^verbatim>\<open>t_ID\<close>: a keyword, then a comparison word, then an identifier.\<close>

definition t_ID :: "string \<Rightarrow> token" where
  "t_ID v =
     (if upper v \<in> set keywords_set then T_KW (upper v)
      else if upper v \<in> set compare_ids then T_COMPARE (upper v)
      else T_ID v)"

text \<open>
  The pattern of \<^verbatim>\<open>t_STR\<close>, \<^verbatim>\<open>'(\\\\|\\'|[^'\\])*'\<close>, after the opening quote: two
  backslashes, a backslash and a quote, or any character but the quote and the
  backslash, repeated up to the closing quote. The result is the number of characters
  before the closing quote. \<^verbatim>\<open>t_STR\<close> keeps these characters as they are.
\<close>

fun str_scan :: "string \<Rightarrow> nat option" where
  "str_scan [] = None"
| "str_scan [c] = (if c = CHR 0x27 then Some 0 else None)"
| "str_scan (c # d # cs) =
     (if c = CHR 0x27 then Some 0
      else if c = CHR 0x5C
      then (if d = CHR 0x5C \<or> d = CHR 0x27 then map_option (\<lambda>k. k + 2) (str_scan cs) else None)
      else map_option Suc (str_scan (d # cs)))"

definition is_digit :: "char \<Rightarrow> bool" where
  "is_digit c \<longleftrightarrow> (let n = (of_char c :: nat) in 48 \<le> n \<and> n \<le> 57)"

definition is_sign :: "char \<Rightarrow> bool" where
  "is_sign c \<longleftrightarrow> c = CHR ''+'' \<or> c = CHR ''-''"

text \<open>
  Whether the pattern of \<^verbatim>\<open>t_FLOAT\<close> matches at the start of a string: after an optional
  sign, digits and a point, a point and a digit, or digits and an exponent.
\<close>

definition exponent_at :: "string \<Rightarrow> bool" where
  "exponent_at s \<longleftrightarrow>
     (case s of
        e # t # u \<Rightarrow>
          (e = CHR ''e'' \<or> e = CHR ''E'')
          \<and> (is_digit t \<or> (is_sign t \<and> (case u of d # r \<Rightarrow> is_digit d | [] \<Rightarrow> False)))
      | _ \<Rightarrow> False)"

definition unsigned_float_at :: "string \<Rightarrow> bool" where
  "unsigned_float_at s \<longleftrightarrow>
     (let ds = takeWhile is_digit s; rest = dropWhile is_digit s
      in (case rest of
            c # r \<Rightarrow>
              (c = CHR ''.'' \<and> (ds \<noteq> [] \<or> (case r of d # r' \<Rightarrow> is_digit d | [] \<Rightarrow> False)))
              \<or> (ds \<noteq> [] \<and> exponent_at rest)
          | [] \<Rightarrow> False))"

definition float_at :: "string \<Rightarrow> bool" where
  "float_at s \<longleftrightarrow>
     (case s of c # cs \<Rightarrow> if is_sign c then unsigned_float_at cs else unsigned_float_at s
      | [] \<Rightarrow> False)"

text \<open>Digits in a base, and \<^verbatim>\<open>int(digits, base)\<close>.\<close>

definition digit_value :: "char \<Rightarrow> nat" where
  "digit_value c =
     (let n = (of_char c :: nat)
      in if 48 \<le> n \<and> n \<le> 57 then n - 48
         else if 97 \<le> n \<and> n \<le> 102 then n - 87
         else if 65 \<le> n \<and> n \<le> 70 then n - 55
         else 16)"

definition is_base_digit :: "nat \<Rightarrow> char \<Rightarrow> bool" where
  "is_base_digit base c \<longleftrightarrow> digit_value c < base"

definition int_of_digits :: "nat \<Rightarrow> string \<Rightarrow> int" where
  "int_of_digits base ds = int (foldl (\<lambda>a c. a * base + digit_value c) 0 ds)"

text \<open>
  The pattern of \<^verbatim>\<open>t_INT\<close> without the sign: a decimal number that does not start with
  0, a binary, octal or hexadecimal number with its prefix, or 0. The result is the value
  that \<^verbatim>\<open>t_INT\<close> computes and the number of characters matched.
\<close>

definition prefixed_int :: "nat \<Rightarrow> char \<Rightarrow> char \<Rightarrow> string \<Rightarrow> (int \<times> nat) option" where
  "prefixed_int base lo up s =
     (case s of
        z # p # d # r \<Rightarrow>
          if z = CHR ''0'' \<and> (p = lo \<or> p = up) \<and> is_base_digit base d
          then (let ds = takeWhile (is_base_digit base) (d # r)
                in Some (int_of_digits base ds, 2 + length ds))
          else None
      | _ \<Rightarrow> None)"

definition unsigned_int_at :: "string \<Rightarrow> (int \<times> nat) option" where
  "unsigned_int_at s =
     (case s of
        [] \<Rightarrow> None
      | c # cs \<Rightarrow>
          if is_digit c \<and> c \<noteq> CHR ''0''
          then (let ds = takeWhile is_digit s in Some (int_of_digits 10 ds, length ds))
          else (case prefixed_int 2 (CHR ''b'') (CHR ''B'') s of
                  Some r \<Rightarrow> Some r
                | None \<Rightarrow>
                    (case prefixed_int 8 (CHR ''o'') (CHR ''O'') s of
                       Some r \<Rightarrow> Some r
                     | None \<Rightarrow>
                         (case prefixed_int 16 (CHR ''x'') (CHR ''X'') s of
                            Some r \<Rightarrow> Some r
                          | None \<Rightarrow> if c = CHR ''0'' then Some (0, 1) else None))))"

definition int_at :: "string \<Rightarrow> (int \<times> nat) option" where
  "int_at s =
     (case s of
        [] \<Rightarrow> None
      | c # cs \<Rightarrow>
          if c = CHR ''-'' then map_option (\<lambda>(v, n). (- v, Suc n)) (unsigned_int_at cs)
          else if c = CHR ''+'' then map_option (\<lambda>(v, n). (v, Suc n)) (unsigned_int_at cs)
          else unsigned_int_at s)"

text \<open>The pattern of \<^verbatim>\<open>t_COMPARE\<close>, \<^verbatim>\<open>>=?|<=?|==|!=\<close>.\<close>

definition compare_at :: "string \<Rightarrow> string option" where
  "compare_at s =
     (case s of
        [] \<Rightarrow> None
      | c # cs \<Rightarrow>
          if c = CHR ''>'' \<or> c = CHR ''<''
          then (case cs of d # r \<Rightarrow> if d = CHR ''='' then Some [c, d] else Some [c] | [] \<Rightarrow> Some [c])
          else if c = CHR ''='' \<or> c = CHR ''!''
          then (case cs of d # r \<Rightarrow> if d = CHR ''='' then Some [c, d] else None | [] \<Rightarrow> None)
          else None)"

text \<open>\<^verbatim>\<open>t_error\<close>: the message holds the rest of the input and the line.\<close>

definition t_error :: "string \<Rightarrow> nat \<Rightarrow> exn" where
  "t_error rest lineno =
     SyntaxError (''Unexpected character(s) '' @ str_repr rest @ '' at line ''
                  @ int_repr (int lineno))"

text \<open>
  The tokens of a text, from line \<open>lineno\<close> on. At each position a blank or a tab is
  skipped; otherwise the rules are tried in the order in which the generated lexer holds
  them: the functions \<^verbatim>\<open>t_ID\<close>, \<^verbatim>\<open>t_STR\<close>, \<^verbatim>\<open>t_FLOAT\<close>, \<^verbatim>\<open>t_INT\<close> and \<^verbatim>\<open>t_newline\<close> in
  the order of their definition, then the strings \<^verbatim>\<open>t_COMPARE\<close> and \<^verbatim>\<open>t_POW\<close>, then the
  literal characters; when none applies \<^verbatim>\<open>t_error\<close> raises.
\<close>

function tokenize :: "nat \<Rightarrow> string \<Rightarrow> exn + token list" where
  "tokenize lineno [] = Inr []"
| "tokenize lineno (c # cs) =
     (if c = CHR '' '' \<or> c = CHR 0x09 then tokenize lineno cs
      else if ident_start c
      then map_sum id (\<lambda>ts. t_ID (c # takeWhile ident_char cs) # ts)
             (tokenize lineno (dropWhile ident_char cs))
      else if c = CHR 0x27 \<and> str_scan cs \<noteq> None
      then (case str_scan cs of
              Some k \<Rightarrow> map_sum id (\<lambda>ts. T_STR (take k cs) # ts) (tokenize lineno (drop (Suc k) cs))
            | None \<Rightarrow> Inl (t_error (c # cs) lineno))
      else if float_at (c # cs) then Inl (Unmodelled ''FLOAT'')
      else if int_at (c # cs) \<noteq> None
      then (case int_at (c # cs) of
              Some (v, n) \<Rightarrow> map_sum id (\<lambda>ts. T_INT v # ts) (tokenize lineno (drop (n - 1) cs))
            | None \<Rightarrow> Inl (t_error (c # cs) lineno))
      else if c = CHR 0x0A
      then tokenize (lineno + 1 + length (takeWhile (\<lambda>d. d = CHR 0x0A) cs))
             (dropWhile (\<lambda>d. d = CHR 0x0A) cs)
      else if compare_at (c # cs) \<noteq> None
      then (case compare_at (c # cs) of
              Some v \<Rightarrow> map_sum id (\<lambda>ts. T_COMPARE v # ts) (tokenize lineno (drop (length v - 1) cs))
            | None \<Rightarrow> Inl (t_error (c # cs) lineno))
      else if c = CHR ''*'' \<and> (case cs of d # r \<Rightarrow> d = CHR ''*'' | [] \<Rightarrow> False)
      then map_sum id (\<lambda>ts. T_POW # ts) (tokenize lineno (drop 1 cs))
      else if c \<in> set literals then map_sum id (\<lambda>ts. T_LIT c # ts) (tokenize lineno cs)
      else Inl (t_error (c # cs) lineno))"
  by pat_completeness auto

termination
  by (relation "measure (\<lambda>(lineno, s). length s)")
     (auto simp: length_dropWhile_le less_Suc_eq_le)

text \<open>\<^verbatim>\<open>lexer.input(text)\<close> followed by reading every token.\<close>

definition lexer :: "string \<Rightarrow> exn + token list" where
  "lexer text = tokenize 1 text"

section \<open>The parser (snakeql/parser.py)\<close>

text \<open>
  A reduction function reads the values \<open>p[1], p[2], ...\<close> of the symbols of its rule and
  sets \<open>p[0]\<close>; a function that does not set it leaves \<^verbatim>\<open>None\<close>. The value of an
  expression is a field, \<^verbatim>\<open>None\<close> when a reduction left it unset, or the boolean that
  comparing two such \<^verbatim>\<open>None\<close> gives; the value of a list of expressions is a list. The
  operators of the reduction functions are Python's: on a field they are the methods of
  \<^verbatim>\<open>Field\<close>; \<^verbatim>\<open>None\<close> has no such operator and no such method, and a field has no
  reflected arithmetic operator, so they raise. Arithmetic on two booleans is outside the
  model.
\<close>

text \<open>A binary operator \<^verbatim>\<open>x op y\<close> that \<^verbatim>\<open>Field\<close> defines through \<open>field_op\<close> (not a
  comparison), and \<^verbatim>\<open>~x\<close>.\<close>

definition py_binop :: "func \<Rightarrow> string \<Rightarrow> val \<Rightarrow> val \<Rightarrow> exn + val" where
  "py_binop fn op_str x y =
     (case x of
        VField f \<Rightarrow> map_sum id VField (field_op fn op_str f y)
      | VNone \<Rightarrow> Inl TypeError
      | _ \<Rightarrow> (case y of
                VField g \<Rightarrow> Inl TypeError
              | VNone \<Rightarrow> Inl TypeError
              | _ \<Rightarrow> Inl (Unmodelled op_str)))"

definition py_invert :: "val \<Rightarrow> exn + val" where
  "py_invert x =
     (case x of
        VField f \<Rightarrow> map_sum id VField (field_invert f)
      | VNone \<Rightarrow> Inl TypeError
      | _ \<Rightarrow> Inl (Unmodelled ''~''))"

text \<open>A call \<^verbatim>\<open>x.METHOD(y)\<close> of a method that only \<^verbatim>\<open>Field\<close> has.\<close>

definition py_method :: "(field \<Rightarrow> val \<Rightarrow> exn + field) \<Rightarrow> val \<Rightarrow> val \<Rightarrow> exn + val" where
  "py_method m x y =
     (case x of VField f \<Rightarrow> map_sum id VField (m f y) | _ \<Rightarrow> Inl AttributeError)"

text \<open>What the parser reads outside its own module: the registry of functions, the
  registry of return types (\<^verbatim>\<open>_return_types\<close>) and the text of objects.\<close>

record parse_env =
  env_funcs :: "string \<Rightarrow> (val list \<Rightarrow> exn + field) option"
  env_return_types :: "string \<Rightarrow> pytype option"
  env_repr :: "val \<Rightarrow> string"

text \<open>The registries as the modules leave them: the functions of functions.py and
  \<^verbatim>\<open>{"dict": dict}\<close>.\<close>

definition seeded_env :: parse_env where
  "seeded_env =
     \<lparr>env_funcs = funcs,
      env_return_types = map_of [(''dict'', PyType ''dict'')],
      env_repr = (\<lambda>v. [])\<rparr>"

subsection \<open>Reduction functions\<close>

text \<open>\<^verbatim>\<open>p_statement\<close>: \<open>dist\<close> is the value of the \<^verbatim>\<open>DISTINCT\<close> token or \<^verbatim>\<open>None\<close>,
  \<open>where\<close> the value of the \<^verbatim>\<open>WHERE\<close> expression or \<^verbatim>\<open>None\<close>, \<open>gby\<close> the list of
  \<^verbatim>\<open>p_groupby_1\<close> or \<^verbatim>\<open>None\<close>, \<open>returning\<close> the return type or \<^verbatim>\<open>None\<close>.\<close>

definition p_statement ::
  "parse_env \<Rightarrow> string option \<Rightarrow> val \<Rightarrow> val \<Rightarrow> val list option \<Rightarrow> pytype option
     \<Rightarrow> exn + select_query" where
  "p_statement env dist fexprplus wh gby returning =
     (let s = SELECT [fexprplus];
          s = (if dist \<noteq> None then DISTINCT s else s)
      in (case (if wh \<noteq> VNone then WHERE s wh else Inr s) of
            Inl e \<Rightarrow> Inl e
          | Inr s \<Rightarrow>
              (case (case gby of Some g \<Rightarrow> GROUP_BY (env_repr env) s g | None \<Rightarrow> Inr s) of
                 Inl e \<Rightarrow> Inl e
               | Inr s \<Rightarrow>
                   Inr (case returning of Some t \<Rightarrow> RETURNING s t | None \<Rightarrow> s))))"

definition p_groupby_1 :: "val \<Rightarrow> val list" where
  "p_groupby_1 p3 = (case p3 of VList xs \<Rightarrow> xs | _ \<Rightarrow> [p3])"

definition p_returning_1 :: "parse_env \<Rightarrow> string \<Rightarrow> exn + pytype" where
  "p_returning_1 env p2 =
     (case env_return_types env p2 of
        Some t \<Rightarrow> Inr t
      | None \<Rightarrow> Inl (NameError (''undefined return type '' @ p2)))"

definition p_fexpr_1 :: "val \<Rightarrow> val \<Rightarrow> exn + val" where
  "p_fexpr_1 p1 p3 = py_binop Fn_or ''OR'' p1 p3"

definition p_predterm_1 :: "val \<Rightarrow> val \<Rightarrow> exn + val" where
  "p_predterm_1 p1 p3 = py_binop Fn_and ''AND'' p1 p3"

definition p_prednfactor_1 :: "val \<Rightarrow> exn + val" where
  "p_prednfactor_1 p2 = py_invert p2"

definition p_predfactor_1 :: "val \<Rightarrow> val list \<Rightarrow> exn + val" where
  "p_predfactor_1 p1 p3 =
     (case p1 of VField f \<Rightarrow> map_sum id VField (field_IN f p3) | _ \<Rightarrow> Inl AttributeError)"

text \<open>
  \<^verbatim>\<open>p_predfactor_2\<close>. The branch for \<^verbatim>\<open>MATCHES\<close> is the statement
  \<^verbatim>\<open>p[0] == left.MATCHES(right)\<close>: it builds the node, compares \<open>p[0]\<close>, which is
  \<^verbatim>\<open>None\<close>, with it, and drops the result; \<open>p[0]\<close> stays \<^verbatim>\<open>None\<close>.
\<close>

definition p_predfactor_2 :: "val \<Rightarrow> string \<Rightarrow> val \<Rightarrow> exn + val" where
  "p_predfactor_2 left op right =
     (if op = ''=='' then py_richcmp Eq left right
      else if op = ''!='' then py_richcmp Ne left right
      else if op = ''>'' then py_richcmp Gt left right
      else if op = ''>='' then py_richcmp Ge left right
      else if op = ''<'' then py_richcmp Lt left right
      else if op = ''<='' then py_richcmp Le left right
      else if op = ''IS'' then py_method (field_op (Extern ''operator'' ''is_'') ''IS'') left right
      else if op = ''CONTAINS''
      then py_method (field_op (Extern ''operator'' ''contains'') ''CONTAINS'') left right
      else if op = ''LIKE''
      then py_method (field_op (Extern ''fnmatch'' ''fnmatch'') ''LIKE'') left right
      else if op = ''MATCHES''
      then (case py_method field_MATCHES left right of
              Inl e \<Rightarrow> Inl e
            | Inr node \<Rightarrow>
                (case py_richcmp Eq VNone node of Inl e \<Rightarrow> Inl e | Inr dropped \<Rightarrow> Inr VNone))
      else Inr VNone)"

definition p_arithexpr_1 :: "val \<Rightarrow> val \<Rightarrow> exn + val" where
  "p_arithexpr_1 p1 p3 = py_binop (Extern ''operator'' ''add'') ''+'' p1 p3"

definition p_arithexpr_2 :: "val \<Rightarrow> val \<Rightarrow> exn + val" where
  "p_arithexpr_2 p1 p3 = py_binop (Extern ''operator'' ''sub'') ''-'' p1 p3"

definition p_term_1 :: "val \<Rightarrow> val \<Rightarrow> exn + val" where
  "p_term_1 p1 p3 = py_binop (Extern ''operator'' ''mul'') ''*'' p1 p3"

definition p_term_2 :: "val \<Rightarrow> val \<Rightarrow> exn + val" where
  "p_term_2 p1 p3 = py_binop (Extern ''operator'' ''truediv'') ''/'' p1 p3"

definition p_term_3 :: "val \<Rightarrow> val \<Rightarrow> exn + val" where
  "p_term_3 p1 p3 = py_binop (Extern ''operator'' ''mod'') ''%'' p1 p3"

definition p_expnt_1 :: "val \<Rightarrow> val \<Rightarrow> exn + val" where
  "p_expnt_1 p1 p3 = py_binop (Extern ''operator'' ''pow'') ''**'' p1 p3"

definition p_field_1 :: "val \<Rightarrow> val" where
  "p_field_1 p1 = VField (ConstantField p1)"

definition p_field_2 :: val where
  "p_field_2 = VField IdentityField"

definition p_field_3 :: "string \<Rightarrow> val" where
  "p_field_3 p3 = VField (AttrField p3)"

definition p_field_4 :: "val \<Rightarrow> val" where
  "p_field_4 p3 = VField (KeyField p3)"

definition p_field_5 :: "parse_env \<Rightarrow> string \<Rightarrow> val list \<Rightarrow> exn + val" where
  "p_field_5 env p1 p3 =
     (case env_funcs env p1 of
        Some build \<Rightarrow> map_sum id VField (build p3)
      | None \<Rightarrow> Inl (NameError (''undefined field function '' @ p1)))"

definition p_field_7 :: "val \<Rightarrow> string \<Rightarrow> exn + val" where
  "p_field_7 p1 p3 = map_sum id VField (AliasField_init p1 p3)"

text \<open>\<^verbatim>\<open>p_error\<close>: at the end of the input its argument is \<^verbatim>\<open>None\<close>, and reading the
  token's type raises \<^verbatim>\<open>AttributeError\<close>. The message of the \<^verbatim>\<open>SyntaxError\<close> is not
  modelled.\<close>

definition p_error :: "token list \<Rightarrow> exn" where
  "p_error ts = (case ts of [] \<Rightarrow> AttributeError | t # r \<Rightarrow> SyntaxError ''Unexpected token'')"

subsection \<open>The grammar\<close>

text \<open>
  The parser itself is generated by the library from the rules in the docstrings of the
  reduction functions; it is not in this repository. The model reads the same rules from
  left to right, one function for each nonterminal, and calls the reduction function of a
  rule when the rule's last symbol has been read. Where the grammar leaves a choice
  between reading on and reducing, the generated parser reads on, and so does the model:
  a list of expressions takes every expression that follows a comma, and an operator is
  taken by the innermost expression it can continue. Each function has a step bound
  \<open>n\<close>, which every call lowers, and returns the value of its nonterminal with the
  tokens that are left.
\<close>

text \<open>Sequencing: the first exception ends the computation.\<close>

definition bind_exn :: "exn + 'a \<Rightarrow> ('a \<Rightarrow> exn + 'b) \<Rightarrow> exn + 'b" where
  "bind_exn m f = (case m of Inl e \<Rightarrow> Inl e | Inr x \<Rightarrow> f x)"

definition starts_fexpr :: "token \<Rightarrow> bool" where
  "starts_fexpr t =
     (case t of
        T_KW k \<Rightarrow> k \<in> set [''NOT'', ''TRUE'', ''FALSE'', ''NONE'', ''O'']
      | T_STR s \<Rightarrow> True
      | T_INT i \<Rightarrow> True
      | T_ID name \<Rightarrow> True
      | T_LIT c \<Rightarrow> c = CHR ''(''
      | _ \<Rightarrow> False)"

definition literal :: "token \<Rightarrow> val option" where
  "literal t =
     (case t of
        T_STR s \<Rightarrow> Some (VStr s)
      | T_INT i \<Rightarrow> Some (VInt i)
      | T_KW k \<Rightarrow>
          if k = ''TRUE'' then Some (VBool True)
          else if k = ''FALSE'' then Some (VBool False)
          else if k = ''NONE'' then Some VNone
          else None
      | _ \<Rightarrow> None)"

text \<open>Reading one token: the tokens after it when it is the keyword, the literal
  character, an identifier, a literal value or the power sign.\<close>

definition take_kw :: "string \<Rightarrow> token list \<Rightarrow> token list option" where
  "take_kw k ts = (case ts of T_KW k' # r \<Rightarrow> if k' = k then Some r else None | _ \<Rightarrow> None)"

definition take_lit :: "char \<Rightarrow> token list \<Rightarrow> token list option" where
  "take_lit c ts = (case ts of T_LIT c' # r \<Rightarrow> if c' = c then Some r else None | _ \<Rightarrow> None)"

definition take_id :: "token list \<Rightarrow> (string \<times> token list) option" where
  "take_id ts = (case ts of T_ID name # r \<Rightarrow> Some (name, r) | _ \<Rightarrow> None)"

definition take_compare :: "token list \<Rightarrow> (string \<times> token list) option" where
  "take_compare ts = (case ts of T_COMPARE op # r \<Rightarrow> Some (op, r) | _ \<Rightarrow> None)"

definition take_pow :: "token list \<Rightarrow> token list option" where
  "take_pow ts = (case ts of T_POW # r \<Rightarrow> Some r | _ \<Rightarrow> None)"

definition take_literal :: "token list \<Rightarrow> (val \<times> token list) option" where
  "take_literal ts =
     (case ts of t # r \<Rightarrow> map_option (\<lambda>v. (v, r)) (literal t) | [] \<Rightarrow> None)"

text \<open>A token that the rule needs next; \<^verbatim>\<open>p_error\<close> is called on the token found.\<close>

definition expect :: "'a option \<Rightarrow> token list \<Rightarrow> exn + 'a" where
  "expect found ts = (case found of Some x \<Rightarrow> Inr x | None \<Rightarrow> Inl (p_error ts))"

text \<open>
  \<open>fexpr_seq\<close> reads \<^verbatim>\<open>fexpr (',' fexpr)* ','?\<close> and returns the values of the
  expressions with a flag that tells whether a comma was read: with a comma the text is
  a \<^verbatim>\<open>fexprs\<close>, without one a single \<^verbatim>\<open>fexpr\<close>. \<open>fexpr_seq_rest\<close> has read more than
  one expression exactly when it has read a comma before.
\<close>

function fexpr :: "parse_env \<Rightarrow> nat \<Rightarrow> token list \<Rightarrow> exn + val \<times> token list"
  and fexpr_rest :: "parse_env \<Rightarrow> nat \<Rightarrow> val \<Rightarrow> token list \<Rightarrow> exn + val \<times> token list"
  and predterm :: "parse_env \<Rightarrow> nat \<Rightarrow> token list \<Rightarrow> exn + val \<times> token list"
  and predterm_rest :: "parse_env \<Rightarrow> nat \<Rightarrow> val \<Rightarrow> token list \<Rightarrow> exn + val \<times> token list"
  and prednfactor :: "parse_env \<Rightarrow> nat \<Rightarrow> token list \<Rightarrow> exn + val \<times> token list"
  and predfactor :: "parse_env \<Rightarrow> nat \<Rightarrow> token list \<Rightarrow> exn + val \<times> token list"
  and predfactor_rest :: "parse_env \<Rightarrow> nat \<Rightarrow> val \<Rightarrow> token list \<Rightarrow> exn + val \<times> token list"
  and arithexpr :: "parse_env \<Rightarrow> nat \<Rightarrow> token list \<Rightarrow> exn + val \<times> token list"
  and arithexpr_rest :: "parse_env \<Rightarrow> nat \<Rightarrow> val \<Rightarrow> token list \<Rightarrow> exn + val \<times> token list"
  and term_nt :: "parse_env \<Rightarrow> nat \<Rightarrow> token list \<Rightarrow> exn + val \<times> token list"
  and term_rest :: "parse_env \<Rightarrow> nat \<Rightarrow> val \<Rightarrow> token list \<Rightarrow> exn + val \<times> token list"
  and expnt :: "parse_env \<Rightarrow> nat \<Rightarrow> token list \<Rightarrow> exn + val \<times> token list"
  and field_nt :: "parse_env \<Rightarrow> nat \<Rightarrow> token list \<Rightarrow> exn + val \<times> token list"
  and field_rest :: "parse_env \<Rightarrow> nat \<Rightarrow> val \<Rightarrow> token list \<Rightarrow> exn + val \<times> token list"
  and fexpr_seq ::
    "parse_env \<Rightarrow> nat \<Rightarrow> token list \<Rightarrow> exn + (val list \<times> bool) \<times> token list"
  and fexpr_seq_rest ::
    "parse_env \<Rightarrow> nat \<Rightarrow> val list \<Rightarrow> token list \<Rightarrow> exn + (val list \<times> bool) \<times> token list"
where
  "fexpr env 0 ts = Inl OutOfFuel"
| "fexpr env (Suc n) ts = bind_exn (predterm env n ts) (\<lambda>(p1, r). fexpr_rest env n p1 r)"
| "fexpr_rest env 0 p1 ts = Inl OutOfFuel"
| "fexpr_rest env (Suc n) p1 ts =
     (case take_kw ''OR'' ts of
        Some r \<Rightarrow>
          bind_exn (predterm env n r) (\<lambda>(p3, r').
          bind_exn (p_fexpr_1 p1 p3) (\<lambda>p0. fexpr_rest env n p0 r'))
      | None \<Rightarrow> Inr (p1, ts))"
| "predterm env 0 ts = Inl OutOfFuel"
| "predterm env (Suc n) ts =
     bind_exn (prednfactor env n ts) (\<lambda>(p1, r). predterm_rest env n p1 r)"
| "predterm_rest env 0 p1 ts = Inl OutOfFuel"
| "predterm_rest env (Suc n) p1 ts =
     (case take_kw ''AND'' ts of
        Some r \<Rightarrow>
          bind_exn (prednfactor env n r) (\<lambda>(p3, r').
          bind_exn (p_predterm_1 p1 p3) (\<lambda>p0. predterm_rest env n p0 r'))
      | None \<Rightarrow> Inr (p1, ts))"
| "prednfactor env 0 ts = Inl OutOfFuel"
| "prednfactor env (Suc n) ts =
     (case take_kw ''NOT'' ts of
        Some r \<Rightarrow>
          bind_exn (prednfactor env n r) (\<lambda>(p2, r').
          bind_exn (p_prednfactor_1 p2) (\<lambda>p0. Inr (p0, r')))
      | None \<Rightarrow> predfactor env n ts)"
| "predfactor env 0 ts = Inl OutOfFuel"
| "predfactor env (Suc n) ts =
     bind_exn (arithexpr env n ts) (\<lambda>(p1, r). predfactor_rest env n p1 r)"
| "predfactor_rest env 0 p1 ts = Inl OutOfFuel"
| "predfactor_rest env (Suc n) p1 ts =
     (case take_kw ''IN'' ts of
        Some r \<Rightarrow>
          bind_exn (fexpr_seq env n r) (\<lambda>((p3, comma), r').
            if comma
            then bind_exn (p_predfactor_1 p1 p3) (\<lambda>p0. predfactor_rest env n p0 r')
            else Inl (p_error r'))
      | None \<Rightarrow>
          (case take_compare ts of
             Some (op, r) \<Rightarrow>
               bind_exn (arithexpr env n r) (\<lambda>(p3, r').
               bind_exn (p_predfactor_2 p1 op p3) (\<lambda>p0. predfactor_rest env n p0 r'))
           | None \<Rightarrow> Inr (p1, ts)))"
| "arithexpr env 0 ts = Inl OutOfFuel"
| "arithexpr env (Suc n) ts =
     bind_exn (term_nt env n ts) (\<lambda>(p1, r). arithexpr_rest env n p1 r)"
| "arithexpr_rest env 0 p1 ts = Inl OutOfFuel"
| "arithexpr_rest env (Suc n) p1 ts =
     (case take_lit (CHR ''+'') ts of
        Some r \<Rightarrow>
          bind_exn (term_nt env n r) (\<lambda>(p3, r').
          bind_exn (p_arithexpr_1 p1 p3) (\<lambda>p0. arithexpr_rest env n p0 r'))
      | None \<Rightarrow>
          (case take_lit (CHR ''-'') ts of
             Some r \<Rightarrow>
               bind_exn (term_nt env n r) (\<lambda>(p3, r').
               bind_exn (p_arithexpr_2 p1 p3) (\<lambda>p0. arithexpr_rest env n p0 r'))
           | None \<Rightarrow> Inr (p1, ts)))"
| "term_nt env 0 ts = Inl OutOfFuel"
| "term_nt env (Suc n) ts = bind_exn (expnt env n ts) (\<lambda>(p1, r). term_rest env n p1 r)"
| "term_rest env 0 p1 ts = Inl OutOfFuel"
| "term_rest env (Suc n) p1 ts =
     (case take_lit (CHR ''*'') ts of
        Some r \<Rightarrow>
          bind_exn (expnt env n r) (\<lambda>(p3, r').
          bind_exn (p_term_1 p1 p3) (\<lambda>p0. term_rest env n p0 r'))
      | None \<Rightarrow>
          (case take_lit (CHR ''/'') ts of
             Some r \<Rightarrow>
               bind_exn (expnt env n r) (\<lambda>(p3, r').
               bind_exn (p_term_2 p1 p3) (\<lambda>p0. term_rest env n p0 r'))
           | None \<Rightarrow>
               (case take_lit (CHR ''%'') ts of
                  Some r \<Rightarrow>
                    bind_exn (expnt env n r) (\<lambda>(p3, r').
                    bind_exn (p_term_3 p1 p3) (\<lambda>p0. term_rest env n p0 r'))
                | None \<Rightarrow> Inr (p1, ts))))"
| "expnt env 0 ts = Inl OutOfFuel"
| "expnt env (Suc n) ts =
     bind_exn (field_nt env n ts) (\<lambda>(p1, r).
       case take_pow r of
         Some r' \<Rightarrow>
           bind_exn (expnt env n r') (\<lambda>(p3, r'').
           bind_exn (p_expnt_1 p1 p3) (\<lambda>p0. Inr (p0, r'')))
       | None \<Rightarrow> Inr (p1, r))"
| "field_nt env 0 ts = Inl OutOfFuel"
| "field_nt env (Suc n) ts =
     (case take_literal ts of
        Some (v, r) \<Rightarrow> field_rest env n (p_field_1 v) r
      | None \<Rightarrow>
          (case take_kw ''O'' ts of
             Some r \<Rightarrow>
               (case take_lit (CHR ''.'') r of
                  Some r1 \<Rightarrow>
                    bind_exn (expect (take_id r1) r1) (\<lambda>(attr, r2).
                      field_rest env n (p_field_3 attr) r2)
                | None \<Rightarrow>
                    (case take_lit (CHR ''['') r of
                       Some r1 \<Rightarrow>
                         bind_exn (expect (take_literal r1) r1) (\<lambda>(v, r2).
                         bind_exn (expect (take_lit (CHR '']'') r2) r2) (\<lambda>r3.
                           field_rest env n (p_field_4 v) r3))
                     | None \<Rightarrow> field_rest env n p_field_2 r))
           | None \<Rightarrow>
               (case take_id ts of
                  Some (name, r) \<Rightarrow>
                    bind_exn (expect (take_lit (CHR ''('') r) r) (\<lambda>r1.
                      case take_lit (CHR '')'') r1 of
                        Some r2 \<Rightarrow>
                          bind_exn (p_field_5 env name []) (\<lambda>p0. field_rest env n p0 r2)
                      | None \<Rightarrow>
                          bind_exn (fexpr_seq env n r1) (\<lambda>((p3, comma), r2).
                          bind_exn (expect (take_lit (CHR '')'') r2) r2) (\<lambda>r3.
                          bind_exn (p_field_5 env name p3) (\<lambda>p0. field_rest env n p0 r3))))
                | None \<Rightarrow>
                    (case take_lit (CHR ''('') ts of
                       Some r \<Rightarrow>
                         bind_exn (fexpr env n r) (\<lambda>(p2, r1).
                         bind_exn (expect (take_lit (CHR '')'') r1) r1) (\<lambda>r2.
                           field_rest env n p2 r2))
                     | None \<Rightarrow> Inl (p_error ts)))))"
| "field_rest env 0 p1 ts = Inl OutOfFuel"
| "field_rest env (Suc n) p1 ts =
     (case take_kw ''AS'' ts of
        Some r \<Rightarrow>
          bind_exn (expect (take_id r) r) (\<lambda>(name, r').
          bind_exn (p_field_7 p1 name) (\<lambda>p0. field_rest env n p0 r'))
      | None \<Rightarrow> Inr (p1, ts))"
| "fexpr_seq env 0 ts = Inl OutOfFuel"
| "fexpr_seq env (Suc n) ts =
     bind_exn (fexpr env n ts) (\<lambda>(p1, r). fexpr_seq_rest env n [p1] r)"
| "fexpr_seq_rest env 0 acc ts = Inl OutOfFuel"
| "fexpr_seq_rest env (Suc n) acc ts =
     (case take_lit (CHR '','') ts of
        Some r \<Rightarrow>
          if r \<noteq> [] \<and> starts_fexpr (hd r)
          then bind_exn (fexpr env n r) (\<lambda>(p3, r'). fexpr_seq_rest env n (acc @ [p3]) r')
          else Inr ((acc, True), r)
      | None \<Rightarrow> Inr ((acc, 1 < length acc), ts))"
  by pat_completeness auto

termination
  by (relation "measure (case_sum
       (case_sum (case_sum (case_sum (\<lambda>x. fst (snd x)) (\<lambda>x. fst (snd x)))
                           (case_sum (\<lambda>x. fst (snd x)) (\<lambda>x. fst (snd x))))
                 (case_sum (case_sum (\<lambda>x. fst (snd x)) (\<lambda>x. fst (snd x)))
                           (case_sum (\<lambda>x. fst (snd x)) (\<lambda>x. fst (snd x)))))
       (case_sum (case_sum (case_sum (\<lambda>x. fst (snd x)) (\<lambda>x. fst (snd x)))
                           (case_sum (\<lambda>x. fst (snd x)) (\<lambda>x. fst (snd x))))
                 (case_sum (case_sum (\<lambda>x. fst (snd x)) (\<lambda>x. fst (snd x)))
                           (case_sum (\<lambda>x. fst (snd x)) (\<lambda>x. fst (snd x))))))")
     auto

text \<open>\<^verbatim>\<open>fexprplus\<close>: a list when a comma was read (\<^verbatim>\<open>fexprs\<close>), the expression
  otherwise.\<close>

definition fexprplus :: "parse_env \<Rightarrow> nat \<Rightarrow> token list \<Rightarrow> exn + val \<times> token list" where
  "fexprplus env n ts =
     (case fexpr_seq env n ts of
        Inl e \<Rightarrow> Inl e
      | Inr ((ps, comma), r) \<Rightarrow> Inr (if comma then VList ps else hd ps, r))"

text \<open>The rules \<^verbatim>\<open>where\<close>, \<^verbatim>\<open>groupby\<close> and \<^verbatim>\<open>returning\<close>: each is empty when its keyword
  does not come next.\<close>

definition where_nt :: "parse_env \<Rightarrow> nat \<Rightarrow> token list \<Rightarrow> exn + val \<times> token list" where
  "where_nt env n ts =
     (case ts of
        T_KW k # r \<Rightarrow> if k = ''WHERE'' then fexpr env n r else Inr (VNone, ts)
      | _ \<Rightarrow> Inr (VNone, ts))"

definition groupby_nt ::
  "parse_env \<Rightarrow> nat \<Rightarrow> token list \<Rightarrow> exn + val list option \<times> token list" where
  "groupby_nt env n ts =
     (case ts of
        T_KW k # r \<Rightarrow>
          if k = ''GROUP''
          then (case r of
                  T_KW b # r' \<Rightarrow>
                    if b = ''BY''
                    then (case fexprplus env n r' of
                            Inl e \<Rightarrow> Inl e
                          | Inr (p3, r'') \<Rightarrow> Inr (Some (p_groupby_1 p3), r''))
                    else Inl (p_error r)
                | _ \<Rightarrow> Inl (p_error r))
          else Inr (None, ts)
      | _ \<Rightarrow> Inr (None, ts))"

definition returning_nt ::
  "parse_env \<Rightarrow> token list \<Rightarrow> exn + pytype option \<times> token list" where
  "returning_nt env ts =
     (case ts of
        T_KW k # r \<Rightarrow>
          if k = ''RETURNING''
          then (case r of
                  T_ID name # r' \<Rightarrow>
                    (case p_returning_1 env name of Inl e \<Rightarrow> Inl e | Inr t \<Rightarrow> Inr (Some t, r'))
                | _ \<Rightarrow> Inl (p_error r))
          else Inr (None, ts)
      | _ \<Rightarrow> Inr (None, ts))"

text \<open>The rule \<^verbatim>\<open>statement\<close>, which must reach the end of the tokens.\<close>

definition statement :: "parse_env \<Rightarrow> nat \<Rightarrow> token list \<Rightarrow> exn + select_query" where
  "statement env n ts =
     (let ts1 = (case ts of T_KW k # r \<Rightarrow> if k = ''SELECT'' then r else ts | _ \<Rightarrow> ts);
          dist = (case ts1 of T_KW k # r \<Rightarrow> if k = ''DISTINCT'' then Some k else None | _ \<Rightarrow> None);
          ts2 = (if dist \<noteq> None then tl ts1 else ts1)
      in (case fexprplus env n ts2 of
            Inl e \<Rightarrow> Inl e
          | Inr (flds, ts3) \<Rightarrow>
              (case where_nt env n ts3 of
                 Inl e \<Rightarrow> Inl e
               | Inr (wh, ts4) \<Rightarrow>
                   (case groupby_nt env n ts4 of
                      Inl e \<Rightarrow> Inl e
                    | Inr (gby, ts5) \<Rightarrow>
                        (case returning_nt env ts5 of
                           Inl e \<Rightarrow> Inl e
                         | Inr (rty, ts6) \<Rightarrow>
                             if ts6 = [] then p_statement env dist flds wh gby rty
                             else Inl (p_error ts6))))))"

text \<open>\<^verbatim>\<open>parser.parse(text)\<close>: the tokens of the lexer, parsed with a step bound that
  grows with their number.\<close>

definition parse_tokens :: "parse_env \<Rightarrow> token list \<Rightarrow> exn + select_query" where
  "parse_tokens env ts = statement env (20 * (length ts + 1)) ts"

definition parse :: "parse_env \<Rightarrow> string \<Rightarrow> exn + select_query" where
  "parse env text = (case lexer text of Inl e \<Rightarrow> Inl e | Inr ts \<Rightarrow> parse_tokens env ts)"

subsection \<open>Rendering a query: \<^verbatim>\<open>SelectQuery.__str__\<close>\<close>

definition query_str :: "(val \<Rightarrow> string) \<Rightarrow> select_query \<Rightarrow> exn + string" where
  "query_str ext_repr q =
     (if q_flatten q \<and> q_fields q = [] then Inl IndexError
      else
        Inr (join [CHR 0x0A]
          ([(if q_distinct q then ''SELECT DISTINCT'' else ''SELECT'') @ '' ''
              @ (if q_flatten q then field_str ext_repr (hd (q_fields q))
                 else fields_to_str ext_repr (q_fields q))]
           @ (case q_where q of
                None \<Rightarrow> []
              | Some w \<Rightarrow> [''WHERE '' @ block (field_str ext_repr w)])
           @ (case q_group_by q of
                None \<Rightarrow> []
              | Some gb \<Rightarrow> [''GROUP BY '' @ fields_to_str ext_repr gb])
           @ (case q_return_type q of
                None \<Rightarrow> []
              | Some (PyType name) \<Rightarrow> [''RETURNING '' @ name]))))"

text \<open>Structural equality of two queries: the fields of the projection, the
  \<^verbatim>\<open>WHERE\<close> field and the \<^verbatim>\<open>GROUP BY\<close> fields structurally equal one by one, the flags
  and the return type the same.\<close>

definition query_equals :: "select_query \<Rightarrow> select_query \<Rightarrow> bool" where
  "query_equals q1 q2 \<longleftrightarrow>
     list_all2 equals (q_fields q1) (q_fields q2)
     \<and> q_flatten q1 = q_flatten q2
     \<and> q_distinct q1 = q_distinct q2
     \<and> rel_option equals (q_where q1) (q_where q2)
     \<and> rel_option (list_all2 equals) (q_group_by q1) (q_group_by q2)
     \<and> q_return_type q1 = q_return_type q2"

section \<open>Properties\<close>

subsection \<open>Equality of values and structural equality are symmetric\<close>

lemma eq_bool_field_right [simp]: "eq_bool y (VField f)"
  by (cases y) auto

lemma eq_list_Nil_right [simp]: "eq_list ys [] = (ys = [])"
  by (cases ys) auto

lemma eq_bool_sym_aux:
  "eq_bool x y = eq_bool y x"
  "eq_list xs ys = eq_list ys xs"
  "dict_sub a b = dict_sub a b"
  "dict_has k v b = dict_has k v b"
  by (induction x y and xs ys and a b and k v b rule: eq_bool_eq_list_dict_sub_dict_has.induct)
     (auto split: val.splits list.splits)

lemma eq_bool_sym: "eq_bool x y = eq_bool y x"
  by (rule eq_bool_sym_aux(1))

lemma size_field_member: "f \<in> set fs \<Longrightarrow> size f < Suc (size_list size fs)"
  by (induction fs) auto

lemma equals_zip_sym:
  "(\<And>f g. f \<in> set fs \<Longrightarrow> g \<in> set gs \<Longrightarrow> equals f g = equals g f)
   \<Longrightarrow> equals_zip fs gs = equals_zip gs fs"
proof (induction fs arbitrary: gs)
  case Nil
  then show ?case by (cases gs) auto
next
  case (Cons f fs)
  then show ?case by (cases gs) auto
qed

lemma equals_alias_right_nonalias:
  "type_of s \<noteq> TAlias \<Longrightarrow> equals s (AliasField g n) = equals g s"
  by (cases s) auto

text \<open>Symmetry, and transparency of an alias on the right, by induction on the size
  of the two fields: each needs the other at smaller fields.\<close>

lemma equals_sym_transparent:
  "equals a b = equals b a \<and> (\<forall>n. equals a (AliasField b n) = equals a b)"
proof (induction "size a + size b" arbitrary: a b rule: less_induct)
  case less
  have IH_sym: "\<And>a' b'. size a' + size b' < size a + size b \<Longrightarrow> equals a' b' = equals b' a'"
    using less by blast
  have IH_tr: "\<And>a' b' n. size a' + size b' < size a + size b
                 \<Longrightarrow> equals a' (AliasField b' n) = equals a' b'"
    using less by blast
  have zip: "\<And>fs gs. (\<forall>f\<in>set fs. size f < size a) \<Longrightarrow> (\<forall>g\<in>set gs. size g < size b)
               \<Longrightarrow> equals_zip fs gs = equals_zip gs fs"
    by (rule equals_zip_sym, rule IH_sym) (simp add: add_strict_mono)
  have sym: "equals a b = equals b a"
  proof (cases "type_of a = TAlias")
    case True
    then obtain a' n where a: "a = AliasField a' n" by (cases a) auto
    show ?thesis
    proof (cases "type_of b = TAlias")
      case True
      then obtain b' m where b: "b = AliasField b' m" by (cases b) auto
      have "equals a b = equals a' (AliasField b' m)" by (simp add: a b)
      also have "\<dots> = equals (AliasField b' m) a'" by (rule IH_sym) (simp add: a b)
      also have "\<dots> = equals b' a'" by simp
      also have "\<dots> = equals b' (AliasField a' n)" by (rule IH_tr [symmetric]) (simp add: a b)
      also have "\<dots> = equals b a" by (simp add: a b)
      finally show ?thesis .
    next
      case False
      then show ?thesis by (simp add: a equals_alias_right_nonalias)
    qed
  next
    case False
    note na = this
    show ?thesis
    proof (cases "type_of b = TAlias")
      case True
      then obtain b' m where b: "b = AliasField b' m" by (cases b) auto
      show ?thesis using na by (simp add: b equals_alias_right_nonalias)
    next
      case False
      show ?thesis
      proof (cases a)
        case (ListField fs)
        then show ?thesis using False zip [of fs]
          by (cases b) (auto simp: size_field_member eq_bool_sym)
      next
        case (FunctionField fn args nm)
        then show ?thesis using False zip [of args]
          by (cases b) (auto simp: size_field_member)
      next
        case (OperatorField fn args nm)
        then show ?thesis using False zip [of args]
          by (cases b) (auto simp: size_field_member)
      next
        case (AggregateFunctionField fn args nm)
        then show ?thesis using False zip [of args]
          by (cases b) (auto simp: size_field_member)
      next
        case (AliasField f n)
        then show ?thesis using na by simp
      qed (use False in \<open>cases b; auto simp: eq_bool_sym\<close>)+
    qed
  qed
  have "equals a (AliasField b n) = equals a b" for n
  proof (cases "type_of a = TAlias")
    case True
    then obtain a' m where a: "a = AliasField a' m" by (cases a) auto
    have "equals a (AliasField b n) = equals a' (AliasField b n)" by (simp add: a)
    also have "\<dots> = equals a' b" by (rule IH_tr) (simp add: a)
    finally show ?thesis by (simp add: a)
  next
    case False
    then show ?thesis using sym by (simp add: equals_alias_right_nonalias)
  qed
  with sym show ?case by blast
qed

lemma equals_sym: "equals a b = equals b a"
  using equals_sym_transparent by blast

lemma equals_alias_right: "equals a (AliasField b n) = equals a b"
  using equals_sym_transparent by blast

subsection \<open>Constructors and operators\<close>

lemma valid_identifier_match: "valid_identifier name \<Longrightarrow> re_match_ident name \<noteq> None"
  by (cases name) (auto simp: valid_identifier_def)

lemma name_or_Some [simp]: "n \<noteq> [] \<Longrightarrow> name_or (Some n) fn = n"
  by (simp add: name_or_def)

lemma field_op_Inr:
  "field_op fn op_str self other = Inr (OperatorField fn [self, to_field other] (name_or (Some op_str) fn))"
  by (simp add: field_op_def OperatorField_init_def)

lemma field_cmp_Inr:
  "field_cmp op self other = Inr (OperatorField (cmp_func op) [self, to_field other] (cmp_str op))"
  by (cases op) (simp_all add: field_cmp_def field_op_Inr)

lemma evals_two:
  "eval rt a r = Inr x \<Longrightarrow> eval rt b r = Inr y \<Longrightarrow> evals rt [a, b] r = Inr [x, y]"
  by simp

subsection \<open>The claims\<close>

text \<open>
  C6. An alias is transparent: for a field \<open>F\<close> and a valid identifier \<open>n\<close>, the node
  \<^verbatim>\<open>AliasField(F, n)\<close> is built, it is a mapper exactly when \<open>F\<close> is and an aggregator
  exactly when \<open>F\<close> is, and it is structurally equal to a field \<open>G\<close> exactly when \<open>F\<close>
  is, whether the alias is the receiver of \<^verbatim>\<open>_equals\<close> or its argument.
\<close>

theorem alias_transparent:
  assumes "valid_identifier n"
  shows "AliasField_init (VField F) n = Inr (AliasField F n)
       \<and> is_mapper (AliasField F n) = is_mapper F
       \<and> is_aggregator (AliasField F n) = is_aggregator F
       \<and> equals (AliasField F n) G = equals F G
       \<and> equals G (AliasField F n) = equals G F"
  using assms by (simp add: AliasField_init_def valid_identifier_match equals_alias_right)

theorem alias_transparent_witness:
  "valid_identifier ''y''
   \<and> AliasField_init (VField (AttrField ''x'')) ''y'' = Inr (AliasField (AttrField ''x'') ''y'')
   \<and> is_mapper (AliasField (AttrField ''x'') ''y'')
   \<and> \<not> is_aggregator (AliasField (AttrField ''x'') ''y'')
   \<and> equals (AliasField (AttrField ''x'') ''y'') (AttrField ''x'')
   \<and> equals (AttrField ''x'') (AliasField (AttrField ''x'') ''y'')"
proof -
  have v: "valid_identifier ''y''"
    by (simp add: valid_identifier_def ident_start_def ident_char_def)
  show ?thesis
    using v alias_transparent [OF v, of "AttrField ''x''" "AttrField ''x''"] by simp
qed

text \<open>
  C1. The function behind the binary OR operator ignores its left operand: whatever
  \<open>x\<close> and \<open>y\<close> are, \<^verbatim>\<open>or_(x, y)\<close> returns the module-level identity field, which is a
  true value. \<^verbatim>\<open>Field.__or__\<close> builds an \<^verbatim>\<open>OperatorField\<close> around this function, so the
  node evaluates to that object on every record on which its operands evaluate, however
  the operands evaluate; a short-circuit \<^verbatim>\<open>x or y\<close> would return \<^verbatim>\<open>False\<close> for two false
  operands.
\<close>

theorem or_returns_identity_object:
  "or_fn x y = o_obj \<and> truthy (or_fn x y)
   \<and> field_or a v = Inr (OperatorField Fn_or [a, to_field v] ''OR'')
   \<and> call rt Fn_or [x, y] = Inr o_obj
   \<and> (eval rt a r = Inr x \<and> eval rt b r = Inr y
        \<longrightarrow> eval rt (OperatorField Fn_or [a, b] ''OR'') r = Inr o_obj)
   \<and> or_fn (VBool False) (VBool False) \<noteq> short_circuit_or (VBool False) (VBool False)"
  by (simp add: or_fn_def o_obj_def field_or_def field_op_Inr short_circuit_or_def)

theorem or_returns_identity_object_witness:
  "eval bare_runtime (ConstantField (VBool False)) VNone = Inr (VBool False)
   \<and> eval bare_runtime
        (OperatorField Fn_or [ConstantField (VBool False), ConstantField (VBool False)] ''OR'')
        VNone
       = Inr (VField IdentityField)
   \<and> truthy (VField IdentityField)"
  using or_returns_identity_object [of "VBool False" "VBool False" "ConstantField (VBool False)"
      VNone bare_runtime VNone "ConstantField (VBool False)"]
  by (simp add: o_obj_def)

text \<open>
  C8. The claim is that \<^verbatim>\<open>AliasField\<close> can only be built with a name that is an
  identifier from its first to its last character. The assertion uses \<^verbatim>\<open>re.match\<close>,
  which matches a prefix: a name with a space or a hyphen after a valid first character
  is accepted.
\<close>

theorem alias_accepts_non_identifier:
  "AliasField_init (VField IdentityField) ''foo bar'' = Inr (AliasField IdentityField ''foo bar'')
   \<and> \<not> valid_identifier ''foo bar''
   \<and> AliasField_init (VField IdentityField) ''a-b'' = Inr (AliasField IdentityField ''a-b'')
   \<and> \<not> valid_identifier ''a-b''"
  by (simp add: AliasField_init_def valid_identifier_def ident_start_def ident_char_def)

text \<open>The assertion of \<^verbatim>\<open>AliasField.__init__\<close> holds exactly when the name starts like
  an identifier.\<close>

lemma AliasField_init_succeeds_iff:
  "(\<exists>A. AliasField_init f name = Inr A) \<longleftrightarrow> name \<noteq> [] \<and> ident_start (hd name)"
  by (cases name) (auto simp: AliasField_init_def)

text \<open>
  C9. \<^verbatim>\<open>==\<close> on a field does not test equality. \<^verbatim>\<open>Field.__eq__\<close> applied to a field
  \<open>F\<close> and a value \<open>v\<close> returns the node \<^verbatim>\<open>OperatorField(operator.eq, (F, to_field(v)), "==")\<close>,
  where a value that is not a field is wrapped in a \<^verbatim>\<open>ConstantField\<close>; on a record on
  which both operands evaluate, the node evaluates to the comparison of the two results.
  The expression \<^verbatim>\<open>F == v\<close> is always such a node and never a boolean, whether or not the
  two sides are structurally equal.
\<close>

lemma py_eq_field:
  "\<exists>args. py_eq (VField F) v = Inr (VField (OperatorField Operator_eq args ''==''))"
  by (cases v) (auto simp: py_eq_def py_richcmp.simps field_richcmp_def field_cmp_Inr)

theorem eq_builds_operator_node:
  "field_eq F v = Inr (OperatorField Operator_eq [F, to_field v] ''=='')
   \<and> (\<not> is_field v \<longrightarrow> to_field v = ConstantField v)
   \<and> (eval rt F r = Inr x \<and> eval rt (to_field v) r = Inr y
        \<longrightarrow> eval rt (OperatorField Operator_eq [F, to_field v] ''=='') r = py_eq x y)
   \<and> (\<exists>args. py_eq (VField F) v = Inr (VField (OperatorField Operator_eq args ''=='')))
   \<and> (\<forall>b. py_eq (VField F) v \<noteq> Inr (VBool b))"
  using py_eq_field [of F v]
  by (cases v) (auto simp: field_eq_def field_op_Inr py_eq_def)

theorem eq_builds_operator_node_witness:
  "\<not> is_field (VInt 1)
   \<and> eval bare_runtime IdentityField (VInt 1) = Inr (VInt 1)
   \<and> eval bare_runtime (ConstantField (VInt 1)) (VInt 1) = Inr (VInt 1)
   \<and> field_eq IdentityField (VInt 1)
       = Inr (OperatorField Operator_eq [IdentityField, ConstantField (VInt 1)] ''=='')
   \<and> eval bare_runtime
        (OperatorField Operator_eq [IdentityField, ConstantField (VInt 1)] ''=='') (VInt 1)
       = Inr (VBool True)
   \<and> \<not> equals (AttrField ''x'') (AttrField ''y'')
   \<and> py_eq (VField (AttrField ''x'')) (VField (AttrField ''y''))
       = Inr (VField (OperatorField Operator_eq [AttrField ''x'', AttrField ''y''] ''==''))"
  using eq_builds_operator_node [of IdentityField "VInt 1" bare_runtime "VInt 1" "VInt 1" "VInt 1"]
  by (simp add: py_eq_def py_richcmp.simps field_richcmp_def field_cmp_Inr proper_subclass_def)

text \<open>
  C10. \<^verbatim>\<open>AggregateFunctionField.__init__\<close> asserts that every argument is a mapper: when
  one is not, the construction fails; a node that is built has mappers for arguments, is
  an aggregator and is not a mapper. Hence every \<^verbatim>\<open>AggregateFunctionField\<close> node of a tree
  built with the constructors has mappers for arguments, and an aggregate function applied
  to an aggregate function of the registry, as in \<^verbatim>\<open>sum(sum(o.x))\<close>, is rejected when it is
  built.
\<close>

lemma is_mapper_aggregates_ok: "is_mapper f \<Longrightarrow> aggregates_ok f"
  by (induction f rule: is_mapper.induct) (auto simp: list_all_iff)

lemma constructed_aggregates_ok: "constructed f \<Longrightarrow> aggregates_ok f"
proof (induction rule: constructed.induct)
  case (c_aggregate args fn name g)
  then show ?case
    by (auto simp: AggregateFunctionField_init_def list_all_iff split: if_splits)
qed (auto simp: AliasField_init_def FunctionField_init_def OperatorField_init_def list_all_iff
      split: if_splits)

theorem aggregate_arguments_are_mappers:
  "(\<not> list_all is_mapper args \<longrightarrow> AggregateFunctionField_init fn args name = Inl (AssertionError []))
   \<and> (AggregateFunctionField_init fn args name = Inr node
        \<longrightarrow> list_all is_mapper args \<and> node = AggregateFunctionField fn args (name_or name fn)
            \<and> is_aggregator node \<and> \<not> is_mapper node)
   \<and> (constructed f \<longrightarrow> aggregates_ok f)
   \<and> (aggregate_function fn' name' args' = Inr inner
        \<longrightarrow> aggregate_function fn name [VField inner] = Inl (AssertionError []))"
  using constructed_aggregates_ok [of f]
  by (auto simp: AggregateFunctionField_init_def aggregate_function_def to_fields_def
      split: if_splits)

theorem aggregate_arguments_are_mappers_witness:
  "funcs ''sum'' = Some (aggregate_function (Extern ''builtins'' ''sum'') None)
   \<and> aggregate_function (Extern ''builtins'' ''sum'') None [VField (AttrField ''x'')]
       = Inr (AggregateFunctionField (Extern ''builtins'' ''sum'') [AttrField ''x''] ''sum'')
   \<and> is_aggregator (AggregateFunctionField (Extern ''builtins'' ''sum'') [AttrField ''x''] ''sum'')
   \<and> \<not> is_mapper (AggregateFunctionField (Extern ''builtins'' ''sum'') [AttrField ''x''] ''sum'')
   \<and> \<not> list_all is_mapper
          [AggregateFunctionField (Extern ''builtins'' ''sum'') [AttrField ''x''] ''sum'']
   \<and> aggregate_function (Extern ''builtins'' ''sum'') None
        [VField (AggregateFunctionField (Extern ''builtins'' ''sum'') [AttrField ''x''] ''sum'')]
       = Inl (AssertionError [])
   \<and> constructed (AggregateFunctionField (Extern ''builtins'' ''sum'') [AttrField ''x''] ''sum'')
   \<and> aggregates_ok (AggregateFunctionField (Extern ''builtins'' ''sum'') [AttrField ''x''] ''sum'')"
proof -
  let ?sum = "Extern ''builtins'' ''sum''"
  let ?inner = "AggregateFunctionField ?sum [AttrField ''x''] ''sum''"
  have b: "aggregate_function ?sum None [VField (AttrField ''x'')] = Inr ?inner"
    by (simp add: aggregate_function_def AggregateFunctionField_init_def to_fields_def name_or_def)
  have c: "constructed ?inner"
    by (rule c_aggregate [where args = "[AttrField ''x'']" and fn = ?sum and name = "Some ''sum''"])
       (auto simp: AggregateFunctionField_init_def intro: c_attr)
  show ?thesis
    using b c aggregate_arguments_are_mappers
      [where args = "[AttrField ''x'']" and fn = ?sum and name = None and node = ?inner
         and f = ?inner and fn' = ?sum and name' = None and args' = "[VField (AttrField ''x'')]"
         and inner = ?inner]
    by (simp add: funcs_def)
qed

subsection \<open>The query builder and the result\<close>

lemma to_fields_fields [simp]: "to_fields (map VField fs) = fs"
  by (induction fs) (auto simp: to_fields_def)

lemma flatten_singletons:
  "map_gen (\<lambda>r. py_getitem r (VInt 0)) (map (\<lambda>v. VTuple [v]) vs) e = (vs, e)"
  by (induction vs) (auto simp: seq_index_def)

lemma flatten_select_one:
  "map_gen (\<lambda>r. py_getitem r (VInt 0)) (fst (map_gen (select_row rt [f]) objs e))
      (snd (map_gen (select_row rt [f]) objs e))
   = map_gen (eval rt f) objs e"
  by (induction objs) (auto simp: select_row_def seq_index_def split: sum.splits prod.splits)

text \<open>
  C5. \<^verbatim>\<open>SELECT\<close> sets the projection and \<^verbatim>\<open>flatten\<close> by the shape of its arguments: no
  argument gives the single identity field and \<^verbatim>\<open>flatten\<close> true; one list or tuple gives
  its elements (each made a field by \<^verbatim>\<open>to_field\<close>, which leaves a field as it is) and
  \<^verbatim>\<open>flatten\<close> false; one argument that is neither gives the one-element projection of that
  field and \<^verbatim>\<open>flatten\<close> true; two or more arguments give those fields and \<^verbatim>\<open>flatten\<close>
  false. When \<^verbatim>\<open>flatten\<close> is true each one-element row is replaced by its element, so the
  query \<^verbatim>\<open>SELECT(f)\<close> yields the values of \<open>f\<close> and not one-element tuples; when it is
  false the rows are left as they are.
\<close>

theorem select_argument_shapes:
  "SELECT [] = SelectQuery [IdentityField] True
   \<and> SELECT [VList xs] = SelectQuery (to_fields xs) False
   \<and> SELECT [VTuple xs] = SelectQuery (to_fields xs) False
   \<and> to_fields (map VField fs) = fs
   \<and> ((\<forall>ys. v \<noteq> VList ys \<and> v \<noteq> VTuple ys) \<longrightarrow> SELECT [v] = SelectQuery [to_field v] True)
   \<and> SELECT [VField f] = SelectQuery [f] True
   \<and> (2 \<le> length args \<longrightarrow> SELECT args = SelectQuery (to_fields args) False)
   \<and> q_fields (SelectQuery flds flat) = flds \<and> q_flatten (SelectQuery flds flat) = flat
   \<and> (q_flatten q \<longrightarrow> flatten_stage q (map (\<lambda>v. VTuple [v]) vs, e) = (vs, e))
   \<and> (\<not> q_flatten q \<longrightarrow> flatten_stage q res = res)
   \<and> (is_mapper f \<longrightarrow>
        call_query rt ext_repr (SELECT [VField f]) objects = Inr (map_gen (eval rt f) objects None))"
proof -
  have two: "2 \<le> length args \<longrightarrow> SELECT args = SelectQuery (to_fields args) False"
    by (cases args rule: SELECT.cases) auto
  have one: "(\<forall>ys. v \<noteq> VList ys \<and> v \<noteq> VTuple ys) \<longrightarrow> SELECT [v] = SelectQuery [to_field v] True"
    by (cases v) auto
  have run: "is_mapper f \<longrightarrow>
        call_query rt ext_repr (SELECT [VField f]) objects = Inr (map_gen (eval rt f) objects None)"
    by (simp add: call_query_def project_stage_def where_stage_def SelectQuery_def
        select_stage_def flatten_stage_def distinct_stage_def returning_stage_def
        flatten_select_one)
  show ?thesis
    using one two run
    by (simp add: SelectQuery_def flatten_stage_def flatten_singletons)
qed

theorem select_argument_shapes_witness:
  "SELECT [VInt 5] = SelectQuery [ConstantField (VInt 5)] True
   \<and> SELECT [VField (AttrField ''x''), VField (AttrField ''y'')]
       = SelectQuery [AttrField ''x'', AttrField ''y''] False
   \<and> q_flatten (SELECT [])
   \<and> flatten_stage (SELECT []) ([VTuple [VInt 1], VTuple [VInt 2]], None) = ([VInt 1, VInt 2], None)
   \<and> \<not> q_flatten (SELECT [VList [VField (AttrField ''x'')]])
   \<and> flatten_stage (SELECT [VList [VField (AttrField ''x'')]]) ([VTuple [VInt 1]], None)
       = ([VTuple [VInt 1]], None)
   \<and> is_mapper IdentityField
   \<and> call_query bare_runtime (\<lambda>v. []) (SELECT [VField IdentityField]) [VInt 1, VInt 2]
       = Inr ([VInt 1, VInt 2], None)"
  using select_argument_shapes [where v = "VInt 5"
      and args = "[VField (AttrField ''x''), VField (AttrField ''y'')]" and q = "SELECT []"
      and vs = "[VInt 1, VInt 2]" and e = None and f = IdentityField and rt = bare_runtime
      and ext_repr = "\<lambda>v. []" and objects = "[VInt 1, VInt 2]"]
    select_argument_shapes [where q = "SELECT [VList [VField (AttrField ''x'')]]"
      and res = "([VTuple [VInt 1]], None)"]
  by (simp add: SelectQuery_def to_fields_def)

text \<open>
  C7. \<^verbatim>\<open>one()\<close> on a result: with no row it raises the \<^verbatim>\<open>ValueError\<close> for an empty
  result; with exactly one row it returns the row and leaves the result exhausted; with
  two or more rows it raises the \<^verbatim>\<open>ValueError\<close> for more than one row, having taken two
  rows from the result.
\<close>

theorem one_row_or_error:
  "(rows = [] \<longrightarrow> one (rows, None) = (Inl (ValueError ''no items in in result''), ([], None)))
   \<and> (length rows = 1 \<longrightarrow> one (rows, None) = (Inr (hd rows), ([], None)))
   \<and> (2 \<le> length rows \<longrightarrow>
        one (rows, e) = (Inl (ValueError ''more than one item in result''), (drop 2 rows, e)))"
  by (cases rows rule: SELECT.cases) (auto simp: one_def)

theorem one_row_or_error_witness:
  "one ([], None) = (Inl (ValueError ''no items in in result''), ([], None))
   \<and> length [VInt 7] = 1 \<and> one ([VInt 7], None) = (Inr (VInt 7), ([], None))
   \<and> 2 \<le> length [VInt 7, VInt 8, VInt 9]
   \<and> one ([VInt 7, VInt 8, VInt 9], None)
       = (Inl (ValueError ''more than one item in result''), ([VInt 9], None))"
  using one_row_or_error [of "[]"] one_row_or_error [of "[VInt 7]"]
    one_row_or_error [of "[VInt 7, VInt 8, VInt 9]" None]
  by simp

subsection \<open>Sorting and grouping\<close>

lemma ord_refl: "ord_on S \<Longrightarrow> a \<in> S \<Longrightarrow> eq_bool a a \<and> \<not> lt_bool a a"
  unfolding ord_on_def by blast

lemma ord_asym: "ord_on S \<Longrightarrow> a \<in> S \<Longrightarrow> b \<in> S \<Longrightarrow> lt_bool a b \<Longrightarrow> \<not> lt_bool b a"
  unfolding ord_on_def by blast

lemma ord_lt_neq: "ord_on S \<Longrightarrow> a \<in> S \<Longrightarrow> b \<in> S \<Longrightarrow> lt_bool a b \<Longrightarrow> \<not> eq_bool a b \<and> \<not> eq_bool b a"
  unfolding ord_on_def using eq_bool_sym by blast

lemma ord_total: "ord_on S \<Longrightarrow> a \<in> S \<Longrightarrow> b \<in> S \<Longrightarrow> \<not> lt_bool a b \<Longrightarrow> \<not> eq_bool a b \<Longrightarrow> lt_bool b a"
  unfolding ord_on_def by blast

lemma ord_trans:
  "ord_on S \<Longrightarrow> a \<in> S \<Longrightarrow> b \<in> S \<Longrightarrow> c \<in> S \<Longrightarrow> lt_bool a b \<Longrightarrow> lt_bool b c \<Longrightarrow> lt_bool a c"
  unfolding ord_on_def by blast

lemma ord_eq_trans:
  "ord_on S \<Longrightarrow> a \<in> S \<Longrightarrow> b \<in> S \<Longrightarrow> c \<in> S \<Longrightarrow> eq_bool a b \<Longrightarrow> eq_bool b c \<Longrightarrow> eq_bool a c"
  unfolding ord_on_def by blast

lemma ord_lt_eq:
  assumes "ord_on S" "a \<in> S" "b \<in> S" "c \<in> S" "lt_bool a b" "eq_bool b c"
  shows "lt_bool a c"
proof (rule ccontr)
  assume n: "\<not> lt_bool a c"
  show False
  proof (cases "eq_bool a c")
    case True
    then have "eq_bool a b" using assms ord_eq_trans [of S a c b] eq_bool_sym by blast
    then show False using assms ord_lt_neq by blast
  next
    case False
    then have "lt_bool c a" using n assms ord_total by blast
    then have "lt_bool c b" using assms ord_trans by blast
    then show False using assms ord_lt_neq by blast
  qed
qed

lemma ord_eq_lt:
  assumes "ord_on S" "a \<in> S" "b \<in> S" "c \<in> S" "eq_bool a b" "lt_bool b c"
  shows "lt_bool a c"
proof (rule ccontr)
  assume n: "\<not> lt_bool a c"
  show False
  proof (cases "eq_bool a c")
    case True
    then have "eq_bool b c" using assms ord_eq_trans [of S b a c] eq_bool_sym by blast
    then show False using assms ord_lt_neq by blast
  next
    case False
    then have "lt_bool c a" using n assms ord_total by blast
    then have "lt_bool b a" using assms ord_trans by blast
    then show False using assms ord_lt_neq by blast
  qed
qed

lemma ord_le_trans:
  assumes "ord_on S" "a \<in> S" "b \<in> S" "c \<in> S" "\<not> lt_bool b a" "\<not> lt_bool c b"
  shows "\<not> lt_bool c a"
proof
  assume ca: "lt_bool c a"
  show False
  proof (cases "eq_bool a b")
    case True
    then have "lt_bool c b" using ca assms ord_lt_eq by blast
    then show False using assms by blast
  next
    case False
    then have "lt_bool a b" using assms ord_total [of S b a] eq_bool_sym by blast
    then have "lt_bool c b" using ca assms ord_trans by blast
    then show False using assms by blast
  qed
qed

lemma insort_pair_ins:
  "\<forall>q\<in>set qs. comparable (fst p) (fst q) \<Longrightarrow> insort_pair p qs = Inr (ins p qs)"
  by (induction qs) (auto simp: comparable_def lt_bool_def split: sum.splits)

lemma set_ins [simp]: "set (ins p qs) = insert p (set qs)"
  by (induction qs) auto

lemma sort_into_fold:
  "\<forall>a\<in>set (acc @ ps). \<forall>b\<in>set (acc @ ps). comparable (fst a) (fst b)
   \<Longrightarrow> sort_into acc ps = Inr (foldl (\<lambda>a p. ins p a) acc ps)"
proof (induction ps arbitrary: acc)
  case Nil
  then show ?case by simp
next
  case (Cons p ps)
  have "insort_pair p acc = Inr (ins p acc)"
    using Cons.prems by (intro insort_pair_ins) auto
  moreover have "sort_into (ins p acc) ps = Inr (foldl (\<lambda>a p. ins p a) (ins p acc) ps)"
    using Cons.prems by (intro Cons.IH) auto
  ultimately show ?case by simp
qed


lemma sorted_ins:
  assumes S: "ord_on S"
  shows "fst p \<in> S \<Longrightarrow> fst ` set qs \<subseteq> S
         \<Longrightarrow> sorted_wrt (\<lambda>x y. \<not> lt_bool (fst y) (fst x)) qs
         \<Longrightarrow> sorted_wrt (\<lambda>x y. \<not> lt_bool (fst y) (fst x)) (ins p qs)"
proof (induction qs)
  case Nil
  then show ?case by simp
next
  case (Cons q qs)
  show ?case
  proof (cases "lt_bool (fst p) (fst q)")
    case True
    have "\<not> lt_bool (fst x) (fst p)" if "x \<in> set (q # qs)" for x
    proof -
      have "\<not> lt_bool (fst x) (fst q)" using that Cons.prems(3) ord_refl [OF S] Cons.prems(2) by auto
      moreover have "\<not> lt_bool (fst q) (fst p)" using True ord_asym [OF S] Cons.prems by auto
      ultimately show ?thesis
        using ord_le_trans [OF S, of "fst p" "fst q" "fst x"] that Cons.prems by auto
    qed
    then show ?thesis using True Cons.prems by auto
  next
    case False
    then show ?thesis using Cons by auto
  qed
qed

lemma filter_ins:
  assumes S: "ord_on S"
  shows "fst p \<in> S \<Longrightarrow> fst ` set qs \<subseteq> S \<Longrightarrow> K \<in> S
         \<Longrightarrow> sorted_wrt (\<lambda>x y. \<not> lt_bool (fst y) (fst x)) qs
         \<Longrightarrow> filter (\<lambda>x. eq_bool K (fst x)) (ins p qs)
             = filter (\<lambda>x. eq_bool K (fst x)) qs @ (if eq_bool K (fst p) then [p] else [])"
proof (induction qs)
  case Nil
  then show ?case by simp
next
  case (Cons q qs)
  have pS: "fst p \<in> S" and qS: "fst q \<in> S" and KS: "K \<in> S"
    using Cons.prems by auto
  show ?case
  proof (cases "lt_bool (fst p) (fst q)")
    case True
    have gt: "lt_bool (fst p) (fst x)" if x: "x \<in> set (q # qs)" for x
    proof (cases "x = q")
      case True
      then show ?thesis using \<open>lt_bool (fst p) (fst q)\<close> by simp
    next
      case False
      have xS: "fst x \<in> S" using x Cons.prems(2) by auto
      have nlt: "\<not> lt_bool (fst x) (fst q)" using False x Cons.prems(4) by auto
      show ?thesis
      proof (cases "eq_bool (fst q) (fst x)")
        case True
        then show ?thesis using ord_lt_eq [OF S pS qS xS \<open>lt_bool (fst p) (fst q)\<close>] by simp
      next
        case False
        then have "\<not> eq_bool (fst x) (fst q)" using eq_bool_sym by blast
        then have "lt_bool (fst q) (fst x)" using ord_total [OF S xS qS nlt] by simp
        then show ?thesis using ord_trans [OF S pS qS xS \<open>lt_bool (fst p) (fst q)\<close>] by simp
      qed
    qed
    have "\<not> eq_bool K (fst x)" if x: "x \<in> set (q # qs)" and Kp: "eq_bool K (fst p)" for x
    proof
      assume Kx: "eq_bool K (fst x)"
      have xS: "fst x \<in> S" using x Cons.prems(2) by auto
      have "eq_bool (fst p) K" using Kp eq_bool_sym by blast
      then have "eq_bool (fst p) (fst x)" using ord_eq_trans [OF S pS KS xS] Kx by simp
      then show False using gt [OF x] ord_lt_neq [OF S pS xS] by simp
    qed
    then have "eq_bool K (fst p) \<Longrightarrow> filter (\<lambda>x. eq_bool K (fst x)) (q # qs) = []"
      unfolding filter_empty_conv by blast
    then show ?thesis using True by (cases "eq_bool K (fst p)") simp_all
  next
    case False
    then show ?thesis using Cons by auto
  qed
qed

lemma isort_props:
  assumes S: "ord_on S"
  shows "fst ` set acc \<subseteq> S \<Longrightarrow> fst ` set ps \<subseteq> S
         \<Longrightarrow> sorted_wrt (\<lambda>x y. \<not> lt_bool (fst y) (fst x)) acc
         \<Longrightarrow> sorted_wrt (\<lambda>x y. \<not> lt_bool (fst y) (fst x)) (foldl (\<lambda>a p. ins p a) acc ps)
           \<and> set (foldl (\<lambda>a p. ins p a) acc ps) = set acc \<union> set ps
           \<and> (\<forall>K\<in>S. filter (\<lambda>x. eq_bool K (fst x)) (foldl (\<lambda>a p. ins p a) acc ps)
                       = filter (\<lambda>x. eq_bool K (fst x)) (acc @ ps))"
proof (induction ps arbitrary: acc)
  case Nil
  then show ?case by simp
next
  case (Cons p ps)
  have 1: "sorted_wrt (\<lambda>x y. \<not> lt_bool (fst y) (fst x)) (ins p acc)"
    using Cons.prems by (intro sorted_ins [OF S]) auto
  have 2: "fst ` set (ins p acc) \<subseteq> S" using Cons.prems by auto
  have 3: "fst ` set ps \<subseteq> S" using Cons.prems by auto
  have f: "filter (\<lambda>x. eq_bool K (fst x)) (ins p acc)
           = filter (\<lambda>x. eq_bool K (fst x)) acc @ (if eq_bool K (fst p) then [p] else [])"
    if "K \<in> S" for K
    using Cons.prems that by (intro filter_ins [OF S]) auto
  show ?case using Cons.IH [OF 2 3 1] f by auto
qed


lemma run_of_equal_keys:
  assumes S: "ord_on S" and kS: "k \<in> S"
  shows "fst ` set ps \<subseteq> S \<Longrightarrow> \<forall>x\<in>set ps. \<not> lt_bool (fst x) k
         \<Longrightarrow> sorted_wrt (\<lambda>x y. \<not> lt_bool (fst y) (fst x)) ps
         \<Longrightarrow> takeWhile (\<lambda>p. eq_bool k (fst p)) ps = filter (\<lambda>p. eq_bool k (fst p)) ps
           \<and> (\<forall>x\<in>set (dropWhile (\<lambda>p. eq_bool k (fst p)) ps). lt_bool k (fst x))"
proof (induction ps)
  case Nil
  then show ?case by simp
next
  case (Cons x xs)
  have xS: "fst x \<in> S" using Cons.prems by auto
  show ?case
  proof (cases "eq_bool k (fst x)")
    case True
    then show ?thesis using Cons by auto
  next
    case False
    have "\<not> eq_bool (fst x) k" using False eq_bool_sym by blast
    moreover have "\<not> lt_bool (fst x) k" using Cons.prems by auto
    ultimately have kx: "lt_bool k (fst x)" using ord_total [OF S xS kS] by blast
    have ky: "lt_bool k (fst y)" if y: "y \<in> set xs" for y
    proof -
      have yS: "fst y \<in> S" using y Cons.prems by auto
      have nlt: "\<not> lt_bool (fst y) (fst x)" using y Cons.prems by auto
      show ?thesis
      proof (cases "eq_bool (fst x) (fst y)")
        case True
        then show ?thesis using ord_lt_eq [OF S kS xS yS kx] by simp
      next
        case False
        then have "\<not> eq_bool (fst y) (fst x)" using eq_bool_sym by blast
        then have "lt_bool (fst x) (fst y)" using ord_total [OF S yS xS nlt] by simp
        then show ?thesis using ord_trans [OF S kS xS yS kx] by simp
      qed
    qed
    have "\<not> eq_bool k (fst y)" if y: "y \<in> set xs" for y
      using ky [OF y] ord_lt_neq [OF S kS, of "fst y"] y Cons.prems by auto
    then have "filter (\<lambda>p. eq_bool k (fst p)) xs = []"
      unfolding filter_empty_conv by blast
    then show ?thesis using False kx ky by auto
  qed
qed

lemma groupby_sorted:
  assumes S: "ord_on S"
  shows "fst ` set L \<subseteq> S \<Longrightarrow> sorted_wrt (\<lambda>x y. \<not> lt_bool (fst y) (fst x)) L
         \<Longrightarrow> (\<forall>(K, G)\<in>set (groupby L).
                 K \<in> fst ` set L \<and> G = map snd (filter (\<lambda>p. eq_bool K (fst p)) L))
           \<and> sorted_wrt lt_bool (map fst (groupby L))
           \<and> (\<forall>p\<in>set L. \<exists>K\<in>set (map fst (groupby L)). eq_bool K (fst p))"
proof (induction L rule: groupby.induct)
  case 1
  then show ?case by simp
next
  case (2 k v ps)
  let ?eqk = "\<lambda>p. eq_bool k (fst p)"
  let ?T = "takeWhile ?eqk ps"
  let ?R = "dropWhile ?eqk ps"
  have kS: "k \<in> S" and psS: "fst ` set ps \<subseteq> S" using "2.prems" by auto
  have lower: "\<forall>x\<in>set ps. \<not> lt_bool (fst x) k" and sps: "sorted_wrt (\<lambda>x y. \<not> lt_bool (fst y) (fst x)) ps"
    using "2.prems" by auto
  have run: "?T = filter ?eqk ps" and above: "\<forall>x\<in>set ?R. lt_bool k (fst x)"
    using run_of_equal_keys [OF S kS psS lower sps] by auto
  have RS: "fst ` set ?R \<subseteq> S" using psS set_dropWhileD by fastforce
  have "sorted_wrt (\<lambda>x y. \<not> lt_bool (fst y) (fst x)) (?T @ ?R)" using sps by simp
  then have sR: "sorted_wrt (\<lambda>x y. \<not> lt_bool (fst y) (fst x)) ?R"
    unfolding sorted_wrt_append by blast
  note IH = "2.IH" [OF RS sR]
  have kk: "eq_bool k k" using ord_refl [OF S kS] by simp
  have first: "v # map snd ?T = map snd (filter ?eqk ((k, v) # ps))"
    using run kk by simp
  have rest: "K \<in> fst ` set ((k, v) # ps) \<and> G = map snd (filter (\<lambda>p. eq_bool K (fst p)) ((k, v) # ps))"
    if KG: "(K, G) \<in> set (groupby ?R)" for K G
  proof -
    have KR: "K \<in> fst ` set ?R" and G: "G = map snd (filter (\<lambda>p. eq_bool K (fst p)) ?R)"
      using IH KG by auto
    have KS: "K \<in> S" using KR RS by auto
    have kK: "lt_bool k K" using KR above by auto
    have nK: "\<not> eq_bool K k" using ord_lt_neq [OF S kS KS kK] by simp
    have "\<not> eq_bool K (fst x)" if x: "x \<in> set ?T" for x
    proof
      assume Kx: "eq_bool K (fst x)"
      have xS: "fst x \<in> S" using x psS set_takeWhileD by fastforce
      have "eq_bool k (fst x)" using x set_takeWhileD by fastforce
      then have "eq_bool (fst x) k" using eq_bool_sym by blast
      then have "eq_bool K k" using ord_eq_trans [OF S KS xS kS Kx] by simp
      then show False using nK by simp
    qed
    then have "filter (\<lambda>p. eq_bool K (fst p)) ?T = []"
      unfolding filter_empty_conv by blast
    moreover have "filter (\<lambda>p. eq_bool K (fst p)) ps
        = filter (\<lambda>p. eq_bool K (fst p)) ?T @ filter (\<lambda>p. eq_bool K (fst p)) ?R"
      by (simp only: filter_append [symmetric] takeWhile_dropWhile_id)
    ultimately have "filter (\<lambda>p. eq_bool K (fst p)) ((k, v) # ps) = filter (\<lambda>p. eq_bool K (fst p)) ?R"
      using nK by simp
    moreover have "K \<in> fst ` set ((k, v) # ps)" using KR set_dropWhileD by fastforce
    ultimately show ?thesis using G by simp
  qed
  have asc: "\<forall>K\<in>set (map fst (groupby ?R)). lt_bool k K"
    using IH above by fastforce
  have cover: "\<exists>K\<in>set (map fst (groupby ((k, v) # ps))). eq_bool K (fst p)"
    if p: "p \<in> set ((k, v) # ps)" for p
  proof (cases "p = (k, v) \<or> eq_bool k (fst p)")
    case True
    then show ?thesis using kk by auto
  next
    case False
    then have "p \<in> set ps" using p by auto
    then have "p \<in> set (?T @ ?R)" by simp
    moreover have "p \<notin> set ?T"
    proof
      assume "p \<in> set ?T"
      then have "eq_bool k (fst p)" by (rule set_takeWhileD [THEN conjunct2])
      then show False using False by simp
    qed
    ultimately have "p \<in> set ?R" unfolding set_append by blast
    then show ?thesis using IH by auto
  qed
  show ?case
    using first rest asc IH cover by (auto simp del: filter.simps)
qed

lemma map_exn_Inr:
  "map_exn f xs = Inr ys \<Longrightarrow> length ys = length xs \<and> (\<forall>i<length xs. f (xs ! i) = Inr (ys ! i))"
proof (induction xs arbitrary: ys)
  case Nil
  then show ?case by simp
next
  case (Cons x xs)
  then obtain y ys' where y: "f x = Inr y" and ys': "map_exn f xs = Inr ys'" and ys: "ys = y # ys'"
    by (auto split: sum.splits)
  show ?case using Cons.IH [OF ys'] y ys by (auto simp: nth_Cons split: nat.splits)
qed

lemma evals_length: "evals rt fs r = Inr vs \<Longrightarrow> length vs = length fs"
  by (induction fs arbitrary: vs) (auto split: sum.splits)

lemma select_row_tuple:
  "select_row rt gb r = Inr K \<Longrightarrow> \<exists>ks. K = VTuple ks \<and> length ks = length gb"
  by (cases "evals rt gb r") (auto simp: select_row_def evals_length)

lemma field_index_from_Some:
  "field_index_from i f gs = Some j
   \<Longrightarrow> i \<le> j \<and> j < i + length gs \<and> equals f (gs ! (j - i)) \<and> (\<forall>m<j - i. \<not> equals f (gs ! m))"
proof (induction gs arbitrary: i)
  case Nil
  then show ?case by simp
next
  case (Cons g gs)
  show ?case
  proof (cases "equals f g")
    case True
    then show ?thesis using Cons.prems by auto
  next
    case False
    then have "field_index_from (Suc i) f gs = Some j" using Cons.prems by simp
    from Cons.IH [OF this] False show ?thesis
      by (auto simp: nth_Cons Suc_diff_le less_Suc_eq_0_disj split: nat.splits)
  qed
qed

lemma field_index_Some:
  "field_index f gb = Some idx
   \<Longrightarrow> idx < length gb \<and> equals f (gb ! idx) \<and> (\<forall>m<idx. \<not> equals f (gb ! m))"
  using field_index_from_Some [of 0 f gb idx] by (simp add: field_index_def)

lemma field_index_from_None:
  "field_index_from i f gs = None \<longleftrightarrow> (\<forall>g\<in>set gs. \<not> equals f g)"
  by (induction gs arbitrary: i) auto

lemma field_index_None: "field_index f gb = None \<longleftrightarrow> (\<forall>g\<in>set gb. \<not> equals f g)"
  by (simp add: field_index_def field_index_from_None)

lemma make_group_by_field_tuple:
  "length ks = length gb
   \<Longrightarrow> make_group_by_field rt gb f (VTuple ks, G)
       = (case field_index f gb of Some idx \<Rightarrow> Inr (ks ! idx) | None \<Rightarrow> eval rt f (VList G))"
  using field_index_Some [of f gb]
  by (auto simp: make_group_by_field_def seq_index_def split: option.splits)

lemma map_exn_cong: "(\<And>x. x \<in> set xs \<Longrightarrow> f x = g x) \<Longrightarrow> map_exn f xs = map_exn g xs"
proof (induction xs)
  case Nil
  then show ?case by simp
next
  case (Cons x xs)
  have "f x = g x" and "map_exn f xs = map_exn g xs" using Cons by auto
  then show ?case by (simp cong: sum.case_cong)
qed

lemma set_zip_fst: "length ks = length rs \<Longrightarrow> fst ` set (zip ks rs) = set ks"
  by (induction ks rs rule: list_induct2) auto


text \<open>
  C3. Execution with \<^verbatim>\<open>GROUP BY\<close>. Let the filter pass the records \<open>recs\<close> without
  raising, let every record have a key, the tuple of the values of the \<^verbatim>\<open>GROUP BY\<close>
  fields, and let \<^verbatim>\<open><\<close> order the keys totally. Then \<^verbatim>\<open>_group\<close> yields groups and
  raises nothing, and the query yields the row of each group in turn, passed through
  \<^verbatim>\<open>_flatten\<close>, \<^verbatim>\<open>_distinct\<close> and \<^verbatim>\<open>_returning\<close>. The keys of the groups are strictly
  ascending, so no two are equal, and every record's key equals the key of one group: one
  group for each distinct key, in ascending order. A group's key is the key of one of the
  records, and its records are the records whose key equals it, in the order of the
  input. The row of the group with key \<open>K\<close> and records \<open>G\<close> has, for the field \<open>f\<close> of
  the projection, the component \<open>K[idx]\<close> when \<open>idx\<close> is the first position of a
  \<^verbatim>\<open>GROUP BY\<close> field that \<open>f\<close> structurally equals, and otherwise \<open>f\<close> evaluated on the
  list \<open>G\<close>.
\<close>

theorem group_by_rows:
  assumes gb: "q_group_by q = Some gb"
    and flt: "where_stage rt q (objects, None) = (recs, None)"
    and keys: "map_exn (select_row rt gb) recs = Inr keys"
    and ord: "keys_ordered keys"
  shows "\<exists>groups.
      group_stage rt gb (recs, None) = (groups, None)
    \<and> call_query rt ext_repr q objects
        = Inr (returning_stage rt ext_repr q (distinct_stage q (flatten_stage q
                 (map_gen (group_row rt gb (q_fields q)) groups None))))
    \<and> sorted_wrt lt_bool (map fst groups)
    \<and> (\<forall>k\<in>set keys. \<exists>K\<in>set (map fst groups). eq_bool K k)
    \<and> (\<forall>(K, G)\<in>set groups.
          K \<in> set keys
        \<and> G = map snd (filter (\<lambda>p. eq_bool K (fst p)) (zip keys recs))
        \<and> (\<exists>ks. K = VTuple ks \<and> length ks = length gb
             \<and> group_row rt gb (q_fields q) (K, G)
                 = map_sum id VTuple
                     (map_exn (\<lambda>f. case field_index f gb of
                                     Some idx \<Rightarrow> Inr (ks ! idx)
                                   | None \<Rightarrow> eval rt f (VList G))
                        (q_fields q))))
    \<and> (\<forall>f idx. field_index f gb = Some idx
          \<longrightarrow> idx < length gb \<and> equals f (gb ! idx) \<and> (\<forall>m<idx. \<not> equals f (gb ! m)))"
proof -
  let ?S = "set keys"
  let ?pairs = "zip keys recs"
  let ?L = "foldl (\<lambda>a p. ins p a) [] ?pairs"
  have S: "ord_on ?S" and cmp: "\<forall>a\<in>?S. \<forall>b\<in>?S. comparable a b"
    using ord by (auto simp: keys_ordered_def)
  have len: "length keys = length recs" and key_i: "\<forall>i<length recs. select_row rt gb (recs ! i) = Inr (keys ! i)"
    using map_exn_Inr [OF keys] by auto
  have fstp: "fst ` set ?pairs = ?S" using len by (rule set_zip_fst)
  have "\<forall>a\<in>set ([] @ ?pairs). \<forall>b\<in>set ([] @ ?pairs). comparable (fst a) (fst b)"
    using cmp fstp by (metis append_Nil image_eqI)
  then have sorted: "py_sorted ?pairs = Inr ?L"
    unfolding py_sorted_def by (rule sort_into_fold)
  have props: "sorted_wrt (\<lambda>x y. \<not> lt_bool (fst y) (fst x)) ?L" "set ?L = set ?pairs"
    "\<forall>K\<in>?S. filter (\<lambda>x. eq_bool K (fst x)) ?L = filter (\<lambda>x. eq_bool K (fst x)) ?pairs"
    using isort_props [OF S, of "[]" ?pairs] fstp by auto
  have LS: "fst ` set ?L \<subseteq> ?S" using props(2) fstp by simp
  note g = groupby_sorted [OF S LS props(1)]
  have stage: "group_stage rt gb (recs, None) = (groupby ?L, None)"
    by (simp add: group_stage_def keys sorted)
  have tuple: "\<exists>ks. K = VTuple ks \<and> length ks = length gb" if "K \<in> ?S" for K
  proof -
    from that obtain i where "i < length keys" "keys ! i = K"
      unfolding in_set_conv_nth by blast
    then have "select_row rt gb (recs ! i) = Inr K" using key_i len by auto
    then show ?thesis by (rule select_row_tuple)
  qed
  have grp: "K \<in> ?S \<and> G = map snd (filter (\<lambda>p. eq_bool K (fst p)) ?pairs)
        \<and> (\<exists>ks. K = VTuple ks \<and> length ks = length gb
             \<and> group_row rt gb (q_fields q) (K, G)
                 = map_sum id VTuple
                     (map_exn (\<lambda>f. case field_index f gb of
                                     Some idx \<Rightarrow> Inr (ks ! idx)
                                   | None \<Rightarrow> eval rt f (VList G))
                        (q_fields q)))"
    if KG: "(K, G) \<in> set (groupby ?L)" for K G
  proof -
    have KL: "K \<in> fst ` set ?L" and G: "G = map snd (filter (\<lambda>p. eq_bool K (fst p)) ?L)"
      using g KG by auto
    have KS: "K \<in> ?S" using KL LS by auto
    obtain ks where ks: "K = VTuple ks" "length ks = length gb" using tuple [OF KS] by auto
    have "group_row rt gb (q_fields q) (K, G)
          = map_sum id VTuple
              (map_exn (\<lambda>f. case field_index f gb of
                              Some idx \<Rightarrow> Inr (ks ! idx)
                            | None \<Rightarrow> eval rt f (VList G))
                 (q_fields q))"
      unfolding group_row_def ks(1)
      by (simp add: make_group_by_field_tuple [OF ks(2)])
    then show ?thesis using KS G props(3) ks by auto
  qed
  have cover: "\<exists>K\<in>set (map fst (groupby ?L)). eq_bool K k" if k: "k \<in> ?S" for k
  proof -
    obtain p where "p \<in> set ?pairs" "fst p = k" using k fstp by (metis imageE)
    then have "p \<in> set ?L" using props(2) by simp
    then show ?thesis using g \<open>fst p = k\<close> by blast
  qed
  have call: "call_query rt ext_repr q objects
        = Inr (returning_stage rt ext_repr q (distinct_stage q (flatten_stage q
                 (map_gen (group_row rt gb (q_fields q)) (groupby ?L) None))))"
    by (simp add: call_query_def project_stage_def gb flt stage)
  show ?thesis
    using stage call g grp cover field_index_Some
    by (intro exI [of _ "groupby ?L"]) (auto simp del: filter.simps)
qed

theorem group_by_rows_witness:
  "q_group_by (SelectQuery [KeyField (VInt 0),
        AggregateFunctionField (Extern ''builtins'' ''len'') [KeyField (VInt 1)] ''count''] False
      \<lparr>q_group_by := Some [KeyField (VInt 0)]\<rparr>) = Some [KeyField (VInt 0)]
   \<and> keys_ordered [VTuple [VInt 2], VTuple [VInt 1], VTuple [VInt 2]]
   \<and> map_exn (select_row len_runtime [KeyField (VInt 0)])
        [VTuple [VInt 2, VInt 5], VTuple [VInt 1, VInt 7], VTuple [VInt 2, VInt 9]]
       = Inr [VTuple [VInt 2], VTuple [VInt 1], VTuple [VInt 2]]
   \<and> call_query len_runtime (\<lambda>v. [])
        (SelectQuery [KeyField (VInt 0),
            AggregateFunctionField (Extern ''builtins'' ''len'') [KeyField (VInt 1)] ''count''] False
          \<lparr>q_group_by := Some [KeyField (VInt 0)]\<rparr>)
        [VTuple [VInt 2, VInt 5], VTuple [VInt 1, VInt 7], VTuple [VInt 2, VInt 9]]
       = Inr ([VTuple [VInt 1, VInt 1], VTuple [VInt 2, VInt 2]], None)"
proof -
  let ?q = "SelectQuery [KeyField (VInt 0),
        AggregateFunctionField (Extern ''builtins'' ''len'') [KeyField (VInt 1)] ''count''] False
      \<lparr>q_group_by := Some [KeyField (VInt 0)]\<rparr>"
  let ?objs = "[VTuple [VInt 2, VInt 5], VTuple [VInt 1, VInt 7], VTuple [VInt 2, VInt 9]]"
  let ?keys = "[VTuple [VInt 2], VTuple [VInt 1], VTuple [VInt 2]]"
  have gb: "q_group_by ?q = Some [KeyField (VInt 0)]" by simp
  have flt: "where_stage len_runtime ?q (?objs, None) = (?objs, None)"
    by (simp add: where_stage_def SelectQuery_def)
  have keys: "map_exn (select_row len_runtime [KeyField (VInt 0)]) ?objs = Inr ?keys"
    by (simp add: select_row_def seq_index_def)
  have ord: "keys_ordered ?keys"
    by (simp add: keys_ordered_def ord_on_def comparable_def lt_bool_def py_lt_def py_richcmp.simps)
  have run: "call_query len_runtime (\<lambda>v. []) ?q ?objs
       = Inr ([VTuple [VInt 1, VInt 1], VTuple [VInt 2, VInt 2]], None)"
    by (simp add: call_query_def project_stage_def where_stage_def SelectQuery_def group_stage_def
        select_row_def seq_index_def py_sorted_def py_lt_def py_richcmp.simps group_row_def
        make_group_by_field_def field_index_def len_runtime_def flatten_stage_def
        distinct_stage_def returning_stage_def)
  show ?thesis
    using gb keys ord run group_by_rows [OF gb flt keys ord, of "\<lambda>v. []"] by blast
qed

end
